theory Spec2Isabelle
  imports Complex_Main
begin

section \<open>Python strings\<close>

text \<open>
  Strings are lists of characters. The tables of the program are ASCII; the emoji
  literals are written as their UTF-8 code units, and a text outside ASCII is the list of
  its UTF-8 code units. On such a list \<open>w in s\<close> is the same test as on code points.

  \<open>str.lower\<close> and \<open>str.upper\<close> follow the Unicode tables of the interpreter. The
  program's functions therefore take the case mapping as a parameter (the fields
  \<open>str_lower\<close> and \<open>str_upper\<close> of the environment), and the theorems hold for every
  such mapping. \<open>py_lower\<close> and \<open>py_upper\<close> are the ASCII mappings, which the
  concrete environments use on ASCII inputs.

  White space and lengths are those of ASCII text: \<open>is_space\<close> knows the ASCII white
  space only, \<open>is_upper\<close> the ASCII capitals only, and \<open>length\<close>, \<open>take\<close> count code
  units. On a text outside ASCII, \<open>str.strip\<close>, \<open>str.split\<close>, \<open>str.isupper\<close>, \<open>len\<close>
  and slicing may answer differently from these.
\<close>

definition lower_char :: "char \<Rightarrow> char" where
  "lower_char c =
     (let n = (of_char c :: nat) in if 65 \<le> n \<and> n \<le> 90 then char_of (n + 32) else c)"

definition upper_char :: "char \<Rightarrow> char" where
  "upper_char c =
     (let n = (of_char c :: nat) in if 97 \<le> n \<and> n \<le> 122 then char_of (n - 32) else c)"

definition py_lower :: "string \<Rightarrow> string" where
  "py_lower s = map lower_char s"

definition py_upper :: "string \<Rightarrow> string" where
  "py_upper s = map upper_char s"

text \<open>\<open>str.isspace\<close> on one character: tab to carriage return, the four separators, space.\<close>

definition is_space :: "char \<Rightarrow> bool" where
  "is_space c =
     (let n = (of_char c :: nat) in (9 \<le> n \<and> n \<le> 13) \<or> (28 \<le> n \<and> n \<le> 32))"

definition py_strip :: "string \<Rightarrow> string" where
  "py_strip s = rev (dropWhile is_space (rev (dropWhile is_space s)))"

fun starts_with :: "string \<Rightarrow> string \<Rightarrow> bool" where
  "starts_with [] s = True"
| "starts_with (c # w) [] = False"
| "starts_with (c # w) (d # s) = (c = d \<and> starts_with w s)"

text \<open>\<open>w in s\<close> on strings: \<open>w\<close> occurs in \<open>s\<close> as a contiguous run.\<close>

fun py_in :: "string \<Rightarrow> string \<Rightarrow> bool" where
  "py_in w [] = (w = [])"
| "py_in w (d # s) = (starts_with w (d # s) \<or> py_in w s)"

text \<open>\<open>any(word in s for word in words)\<close>\<close>

definition any_in :: "string list \<Rightarrow> string \<Rightarrow> bool" where
  "any_in words s = list_ex (\<lambda>word. py_in word s) words"

text \<open>
  \<open>xs[:n]\<close> for a Python integer \<open>n\<close>: a negative bound counts from the end.
\<close>

definition py_slice_to :: "'a list \<Rightarrow> int \<Rightarrow> 'a list" where
  "py_slice_to xs n =
     (if 0 \<le> n then take (nat n) xs else take (length xs - nat (- n)) xs)"

section \<open>Enrichment: the rule-based path of \<open>RAG/llm_processor.py\<close>\<close>

record enrichment =
  summary :: string
  vibe_tags :: "string list"
  emojis :: "string list"

definition emoji_coffee :: string where
  "emoji_coffee = [CHR 0xE2, CHR 0x98, CHR 0x95]"

definition emoji_chair :: string where
  "emoji_chair = [CHR 0xF0, CHR 0x9F, CHR 0xAA, CHR 0x91]"

definition emoji_plate :: string where
  "emoji_plate = [CHR 0xF0, CHR 0x9F, CHR 0x8D, CHR 0xBD, CHR 0xEF, CHR 0xB8, CHR 0x8F]"

definition emoji_cook :: string where
  "emoji_cook = [CHR 0xF0, CHR 0x9F, CHR 0x91, CHR 0xA8, CHR 0xE2, CHR 0x80, CHR 0x8D,
                 CHR 0xF0, CHR 0x9F, CHR 0x8D, CHR 0xB3]"

definition emoji_beer :: string where
  "emoji_beer = [CHR 0xF0, CHR 0x9F, CHR 0x8D, CHR 0xBA]"

definition emoji_party :: string where
  "emoji_party = [CHR 0xF0, CHR 0x9F, CHR 0x8E, CHR 0x89]"

definition emoji_pin :: string where
  "emoji_pin = [CHR 0xF0, CHR 0x9F, CHR 0x93, CHR 0x8D]"

definition emoji_store :: string where
  "emoji_store = [CHR 0xF0, CHR 0x9F, CHR 0x8F, CHR 0xAA]"

text \<open>
  The tags gathered by \<open>_get_default_processing\<close> before duplicates are removed: four
  keyword tests on the lower-cased name, then one branch on the lower-cased category.
\<close>

definition name_tags :: "string \<Rightarrow> string list" where
  "name_tags name_lower =
     (if any_in [''coffee'', ''cafe'', ''brew''] name_lower
      then [''cozy'', ''caffeinated''] else []) @
     (if any_in [''restaurant'', ''dining'', ''bistro''] name_lower
      then [''dining'', ''culinary''] else []) @
     (if any_in [''bar'', ''pub'', ''tavern''] name_lower
      then [''social'', ''nightlife''] else []) @
     (if any_in [''park'', ''garden''] name_lower
      then [''outdoor'', ''nature''] else [])"

definition category_tags :: "string \<Rightarrow> string list" where
  "category_tags category_lower =
     (if category_lower = ''cafe'' then [''cozy'', ''caffeinated'', ''social'']
      else if category_lower = ''restaurant''
        then [''dining'', ''culinary'', ''social'', ''aesthetic'']
      else if category_lower = ''bar'' then [''nightlife'', ''social'', ''vibrant'']
      else [''local'', ''accessible''])"

definition category_emojis :: "string \<Rightarrow> string list" where
  "category_emojis category_lower =
     (if category_lower = ''cafe'' then [emoji_coffee, emoji_chair]
      else if category_lower = ''restaurant'' then [emoji_plate, emoji_cook]
      else if category_lower = ''bar'' then [emoji_beer, emoji_party]
      else [emoji_pin, emoji_store])"

definition collected_tags :: "(string \<Rightarrow> string) \<Rightarrow> string \<Rightarrow> string \<Rightarrow> string list" where
  "collected_tags lower place_name place_category =
     name_tags (lower place_name) @ category_tags (lower place_category)"

definition default_summary :: "string \<Rightarrow> string \<Rightarrow> string" where
  "default_summary place_name place_category =
     ''A '' @ place_category @ '' in the area. '' @ place_name @
     '' offers a local experience with mixed reviews from visitors.''"

text \<open>
  \<open>list(set(vibe_tags))\<close> lists the distinct tags in the iteration order of a Python set
  of strings. That order comes from the string hashes, which the interpreter salts per
  process; the program fixes none. The order is therefore a parameter \<open>set_order\<close> of the
  model, and \<open>valid_set_order\<close> says what every interpreter guarantees of it.
\<close>

definition valid_set_order :: "(string list \<Rightarrow> string list) \<Rightarrow> bool" where
  "valid_set_order set_order =
     (\<forall>xs. distinct (set_order xs) \<and> set (set_order xs) = set xs)"

definition get_default_processing ::
  "(string list \<Rightarrow> string list) \<Rightarrow> (string \<Rightarrow> string) \<Rightarrow> string \<Rightarrow> string
   \<Rightarrow> enrichment" where
  "get_default_processing set_order lower place_name place_category =
     (let name_lower = lower place_name;
          category_lower = lower place_category;
          vibe_tags = name_tags name_lower @ category_tags category_lower;
          emojis = category_emojis category_lower;
          summary = default_summary place_name place_category
      in \<lparr>summary = summary,
          vibe_tags = take 5 (set_order vibe_tags),
          emojis = py_slice_to emojis 3\<rparr>)"


section \<open>The world outside the program\<close>

text \<open>
  A call that may raise returns an \<open>outcome\<close>; \<open>Raises m\<close> carries the text that
  \<open>str(e)\<close> yields in the handler.
\<close>

datatype 'a outcome = Raises string | Returns 'a

text \<open>
  What \<open>json.loads\<close> makes of a text, seen through the keys the caller reads. A decoded
  object is modelled with values of the types the prompt asks for (text, lists of text, a
  number); an object with a value of another type is outside the model. On such a value
  the source's report \<open>len(processed_data.get('vibe_tags', []))\<close> raises, and the handler
  of \<open>process_place_reviews\<close> answers with the rule-based result for the real name and
  category.
\<close>

datatype 'a json_result = Decode_error | Not_object | Object 'a

text \<open>
  The three prompts sent to the language model, by the values their templates embed:
  name, category and the first 2000 characters of the joined reviews; a batch of reviews
  with place name and type; the user query.
\<close>

datatype prompt =
    Processing_prompt string string string
  | Batch_prompt "string list" string string
  | Intent_prompt string

record review =
  source :: string
  content :: string
  url :: string
  score :: int
  created_utc :: int

record post_data =
  title :: string
  selftext :: string
  post_url :: string
  post_score :: int
  post_created_utc :: int

text \<open>
  The answer to one HTTP request to the review source: the request raises, or it returns
  a status code and a body. \<open>response.json()\<close> raises on a malformed body; a decoded
  body has the listing \<open>data.children\<close> or lacks it.
\<close>

datatype reddit_body = Malformed_body | No_listing | Listing "post_data list"

datatype http_result = Transport_error string | Http_response int reddit_body

record point =
  point_type :: string
  lng_lat :: "rat list"

text \<open>A candidate of the place-search provider; \<open>None\<close> is an absent key.\<close>

record raw_place =
  rp_fsq_id :: "string option"
  rp_name :: "string option"
  rp_category :: "string option"
  rp_address :: "string option"
  rp_locality :: "string option"
  rp_city :: "string option"
  rp_country :: "string option"
  rp_photo_url :: "string option"
  rp_coordinates :: "point option"

record original =
  fsq_id :: "string option"
  name :: "string option"
  category :: "string option"
  address :: "string option"
  locality :: "string option"
  city :: "string option"
  country :: "string option"
  photo_url :: "string option"
  coordinates :: "point option"

record citation =
  cite_text :: string
  cite_source :: string
  cite_link :: string

record processed =
  p_vibe_tags :: "string list"
  p_emojis :: "string list"
  p_summary :: string
  p_citations :: "citation list"

text \<open>The \<open>_id\<close> of a stored document: an ObjectId, or its rendering by \<open>str\<close>.\<close>

datatype doc_id = ObjectId string | Id_str string

text \<open>
  A place document, as stored and as passed to the insert boundary. \<open>processed = None\<close>
  is the empty dictionary that \<open>place_data.get("processed", {})\<close> defaults to.
\<close>

record place =
  doc_id :: "doc_id option"
  original :: original
  processed :: "processed option"
  reviews :: "review list"
  created_at :: nat
  updated_at :: nat

datatype event =
    Llm_request prompt rat
  | Reddit_request string string int
  | Fetch_more_call
  | Tomtom_request string string int
  | Db_find string string "string list"
  | Db_find_one string
  | Db_insert_many "place list"
  | Scrape_multiple "raw_place list" string
  | Process_multiple "(string \<times> review list) list" string
  | Bulk_insert "place list"

text \<open>
  The state: the places collection behind the database handle (\<open>None\<close> when
  \<open>mongo.db\<close> is \<open>None\<close>) and the log of the calls made so far.
\<close>

record world =
  mongo_db :: "place list option"
  events :: "event list"

record llm_fields =
  f_summary :: "string option"
  f_vibe_tags :: "string list option"
  f_emojis :: "string list option"

record extracted_data =
  x_place_name :: "string option"
  x_city :: "string option"
  x_category :: "string option"
  x_vibe_tags :: "string list"
  x_search_terms :: "string list"
  x_response_text :: "string option"

text \<open>The classifier's dictionary; a key the model's object lacks is \<open>None\<close>.\<close>

record intent_dict =
  intent :: "string option"
  confidence :: "rat option"
  extracted :: "extracted_data option"

text \<open>
  The interpreter's case mappings and the collaborators. \<open>regex_search\<close> is the store's
  reading of the filter \<open>{"$regex": pattern, "$options": "i"}\<close>: an invalid pattern
  raises, any other pattern yields the test whether it matches somewhere in a text, case
  ignored. The other collaborators answer by the number of calls logged before the
  request, so that the same request may be answered differently each time.
\<close>

record env =
  str_lower :: "string \<Rightarrow> string"
  str_upper :: "string \<Rightarrow> string"
  regex_search :: "string \<Rightarrow> (string \<Rightarrow> bool) outcome"
  llm :: "nat \<Rightarrow> prompt \<Rightarrow> rat \<Rightarrow> string outcome"
  loads_enrichment :: "string \<Rightarrow> llm_fields json_result"
  loads_intent :: "string \<Rightarrow> intent_dict json_result"
  reddit :: "nat \<Rightarrow> string \<Rightarrow> string \<Rightarrow> int \<Rightarrow> http_result"
  tomtom :: "nat \<Rightarrow> string \<Rightarrow> string \<Rightarrow> int \<Rightarrow> raw_place list option outcome"
  set_order :: "string list \<Rightarrow> string list"
  fresh_oid :: "nat \<Rightarrow> nat \<Rightarrow> string"
  clock :: "nat \<Rightarrow> nat"

definition log_event :: "event \<Rightarrow> world \<Rightarrow> world" where
  "log_event e w = w\<lparr>events := events w @ [e]\<rparr>"

definition now :: "env \<Rightarrow> world \<Rightarrow> nat" where
  "now env w = clock env (length (events w))"

section \<open>The LLM gateway and \<open>process_place_reviews\<close>\<close>

definition generate_content ::
  "env \<Rightarrow> prompt \<Rightarrow> rat \<Rightarrow> world \<Rightarrow> string outcome \<times> world" where
  "generate_content env p temperature w =
     (llm env (length (events w)) p temperature, log_event (Llm_request p temperature) w)"

fun py_join :: "string \<Rightarrow> string list \<Rightarrow> string" where
  "py_join sep [] = []"
| "py_join sep [x] = x"
| "py_join sep (x # y # ys) = x @ sep @ py_join sep (y # ys)"

text \<open>\<open>s.find(c)\<close> and \<open>s.rfind(c)\<close> for a single character: an index, or \<open>-1\<close>.\<close>

fun py_find :: "char \<Rightarrow> string \<Rightarrow> int" where
  "py_find c [] = - 1"
| "py_find c (d # s) =
     (if c = d then 0 else (let i = py_find c s in if i = - 1 then - 1 else i + 1))"

definition py_rfind :: "char \<Rightarrow> string \<Rightarrow> int" where
  "py_rfind c s =
     (let i = py_find c (rev s) in if i = - 1 then - 1 else int (length s) - 1 - i)"

text \<open>\<open>s[a:b]\<close> for non-negative bounds.\<close>

definition py_slice :: "'a list \<Rightarrow> int \<Rightarrow> int \<Rightarrow> 'a list" where
  "py_slice xs a b = take (nat b - nat a) (drop (nat a) xs)"

definition opt_default :: "'a \<Rightarrow> 'a option \<Rightarrow> 'a" where
  "opt_default d v = (case v of None \<Rightarrow> d | Some x \<Rightarrow> x)"

text \<open>
  \<open>_parse_llm_response\<close>: the span from the first opening brace to the last closing
  brace is decoded; a missing brace raises \<open>ValueError\<close>, the decoder may raise, and
  \<open>data.get\<close> raises on a value that is no dictionary. The handler inside the function
  catches all three and returns the rule-based result for an empty name and an empty
  category.
\<close>

definition parse_llm_response :: "env \<Rightarrow> string \<Rightarrow> enrichment" where
  "parse_llm_response env response_text =
     (let start_idx = py_find (CHR ''{'') response_text;
          end_idx = py_rfind (CHR ''}'') response_text + 1
      in if start_idx \<noteq> - 1 \<and> end_idx \<noteq> 0 then
           (case loads_enrichment env (py_slice response_text start_idx end_idx) of
              Object data \<Rightarrow>
                \<lparr>summary = opt_default [] (f_summary data),
                 vibe_tags = opt_default [] (f_vibe_tags data),
                 emojis = opt_default [] (f_emojis data)\<rparr>
            | Not_object \<Rightarrow> get_default_processing (set_order env) (str_lower env) [] []
            | Decode_error \<Rightarrow> get_default_processing (set_order env) (str_lower env) [] [])
         else get_default_processing (set_order env) (str_lower env) [] [])"

definition create_processing_prompt :: "string \<Rightarrow> string \<Rightarrow> string \<Rightarrow> prompt" where
  "create_processing_prompt place_name place_category reviews_text =
     Processing_prompt place_name place_category (take 2000 reviews_text)"

definition retry_worthy :: "(string \<Rightarrow> string) \<Rightarrow> string \<Rightarrow> bool" where
  "retry_worthy lower msg =
     (py_in ''timeout'' (lower msg) \<or> py_in ''connection'' (lower msg))"

definition process_place_reviews ::
  "env \<Rightarrow> string \<Rightarrow> string \<Rightarrow> review list \<Rightarrow> world \<Rightarrow> enrichment \<times> world" where
  "process_place_reviews env place_name place_category rs w =
     (let combined_reviews = py_join [CHR 0x0A, CHR 0x0A] (map content rs)
      in if py_strip combined_reviews = [] then
           (get_default_processing (set_order env) (str_lower env) place_name
              place_category, w)
         else
           (let p = create_processing_prompt place_name place_category combined_reviews;
                (response, w1) = generate_content env p (7 / 10) w
            in case response of
                 Returns result_text \<Rightarrow> (parse_llm_response env result_text, w1)
               | Raises msg \<Rightarrow>
                   if retry_worthy (str_lower env) msg then
                     (let (response2, w2) = generate_content env p (1 / 10) w1
                      in case response2 of
                           Returns result_text \<Rightarrow> (parse_llm_response env result_text, w2)
                         | Raises fallback_error \<Rightarrow>
                             (get_default_processing (set_order env) (str_lower env)
                                place_name place_category, w2))
                   else
                     (get_default_processing (set_order env) (str_lower env) place_name
                        place_category, w1)))"

definition infer_category_from_name :: "(string \<Rightarrow> string) \<Rightarrow> string \<Rightarrow> string" where
  "infer_category_from_name lower place_name =
     (let name_lower = lower place_name
      in if any_in [''cafe'', ''coffee'', ''brew''] name_lower then ''cafe''
         else if any_in [''restaurant'', ''dining'', ''bistro''] name_lower
           then ''restaurant''
         else if any_in [''bar'', ''pub'', ''tavern''] name_lower then ''bar''
         else if any_in [''park'', ''garden''] name_lower then ''park''
         else ''place'')"

text \<open>Assignment \<open>d[k] = v\<close> on a dictionary kept in insertion order.\<close>

fun dict_set :: "'k \<Rightarrow> 'v \<Rightarrow> ('k \<times> 'v) list \<Rightarrow> ('k \<times> 'v) list" where
  "dict_set k v [] = [(k, v)]"
| "dict_set k v ((k', v') # d) =
     (if k = k' then (k, v) # d else (k', v') # dict_set k v d)"

fun process_items ::
  "env \<Rightarrow> (string \<times> review list) list \<Rightarrow> (string \<times> enrichment) list \<Rightarrow> world
   \<Rightarrow> (string \<times> enrichment) list \<times> world" where
  "process_items env [] results w = (results, w)"
| "process_items env ((place_name, rs) # rest) results w =
     (let category = infer_category_from_name (str_lower env) place_name;
          (processed_data, w1) = process_place_reviews env place_name category rs w
      in process_items env rest (dict_set place_name processed_data results) w1)"

definition process_multiple_places ::
  "env \<Rightarrow> (string \<times> review list) list \<Rightarrow> string \<Rightarrow> world
   \<Rightarrow> (string \<times> enrichment) list \<times> world" where
  "process_multiple_places env places_with_reviews the_city w =
     process_items env places_with_reviews []
       (log_event (Process_multiple places_with_reviews the_city) w)"


section \<open>The relevance refiner of \<open>scraper/review_refiner.py\<close>\<close>

record refiner =
  max_iterations :: int
  min_relevant_reviews :: int

text \<open>\<open>s.split(c)\<close> for a one-character separator: at least one piece.\<close>

fun py_split_on :: "char \<Rightarrow> string \<Rightarrow> string list" where
  "py_split_on c [] = [[]]"
| "py_split_on c (d # s) =
     (if d = c then [] # py_split_on c s
      else (case py_split_on c s of
              [] \<Rightarrow> [[d]]
            | t # ts \<Rightarrow> (d # t) # ts))"

text \<open>
  The loop that removes duplicates while preserving order: a review is kept when it is
  not among those seen before it.
\<close>

fun unique_from :: "'a list \<Rightarrow> 'a list \<Rightarrow> 'a list" where
  "unique_from seen [] = []"
| "unique_from seen (x # xs) =
     (if x \<in> set seen then unique_from seen xs else x # unique_from (x # seen) xs)"

definition unique_preserving :: "'a list \<Rightarrow> 'a list" where
  "unique_preserving xs = unique_from [] xs"

text \<open>The positions of the answer lines that read \<open>YES\<close> once stripped and upper-cased.\<close>

definition relevant_indices :: "(string \<Rightarrow> string) \<Rightarrow> string \<Rightarrow> nat list" where
  "relevant_indices upper response =
     (let result = py_strip response;
          lines = py_split_on (CHR 0x0A) result
      in map fst (filter (\<lambda>(j, line). upper (py_strip line) = ''YES'')
                    (zip [0 ..< length lines] lines)))"

definition batch_relevant ::
  "(string \<Rightarrow> string) \<Rightarrow> string list \<Rightarrow> string \<Rightarrow> string list" where
  "batch_relevant upper batch response =
     map (\<lambda>idx. batch ! idx)
       (filter (\<lambda>idx. idx < length batch) (relevant_indices upper response))"

text \<open>One batch: one call to the model; a call that raises keeps the whole batch.\<close>

definition classify_batch ::
  "env \<Rightarrow> string list \<Rightarrow> string \<Rightarrow> string \<Rightarrow> world \<Rightarrow> string list \<times> world" where
  "classify_batch env batch place_name place_type w =
     (let (response, w1) =
            generate_content env (Batch_prompt batch place_name place_type) (7 / 10) w
      in case response of
           Returns text \<Rightarrow> (batch_relevant (str_upper env) batch text, w1)
         | Raises e \<Rightarrow> (batch, w1))"

definition batch_size :: nat where
  "batch_size = 15"

function filter_batches ::
  "env \<Rightarrow> string list \<Rightarrow> string \<Rightarrow> string \<Rightarrow> string list \<Rightarrow> world
   \<Rightarrow> string list \<times> world" where
  "filter_batches env revs place_name place_type relevant_reviews w =
     (if revs = [] then (relevant_reviews, w)
      else
        (let (found, w1) = classify_batch env (take batch_size revs) place_name place_type w
         in filter_batches env (drop batch_size revs) place_name place_type
              (relevant_reviews @ found) w1))"
  by pat_completeness auto
termination
  by (relation "measure (\<lambda>(env, revs, place_name, place_type, relevant_reviews, w). length revs)")
     (auto simp: batch_size_def)

definition filter_relevant_reviews_batched ::
  "env \<Rightarrow> string list \<Rightarrow> string \<Rightarrow> string \<Rightarrow> world \<Rightarrow> string list \<times> world" where
  "filter_relevant_reviews_batched env revs place_name place_type w =
     (if revs = [] then ([], w)
      else
        (let (relevant_reviews, w1) = filter_batches env revs place_name place_type [] w
         in (unique_preserving relevant_reviews, w1)))"

text \<open>
  Why the refinement loop ended; each value is one of the messages the loop logs on its
  way out. The source logs one message for a missing fetch function and for the last
  iteration; the two are told apart here. Beside the list it returns, the loop reports
  the reviews accepted so far, the reason it stopped and the number of filtering passes
  it made.
\<close>

datatype stop_reason =
    Sufficient
  | No_fetch_function
  | No_more_iterations
  | No_more_reviews
  | Fetch_error

record refinement =
  returned :: "string list"
  accepted :: "string list"
  stopped :: stop_reason
  iterations :: int

definition fetch_more ::
  "(nat \<Rightarrow> review list outcome) \<Rightarrow> world \<Rightarrow> review list outcome \<times> world" where
  "fetch_more fetch_more_reviews_func w =
     (fetch_more_reviews_func (length (events w)), log_event Fetch_more_call w)"

function refine_loop ::
  "env \<Rightarrow> refiner \<Rightarrow> string \<Rightarrow> string \<Rightarrow> (nat \<Rightarrow> review list outcome) option
   \<Rightarrow> string list \<Rightarrow> string list \<Rightarrow> int \<Rightarrow> world \<Rightarrow> refinement \<times> world" where
  "refine_loop env rf place_name place_type fetch_more_reviews_func
     current_reviews relevant_reviews iteration w =
     (if iteration < max_iterations rf then
        (let (iteration_relevant, w1) =
               filter_relevant_reviews_batched env current_reviews place_name place_type w;
             unique_relevant = unique_preserving (relevant_reviews @ iteration_relevant)
         in if min_relevant_reviews rf \<le> int (length unique_relevant) then
              (\<lparr>returned = py_slice_to unique_relevant (min_relevant_reviews rf),
                accepted = unique_relevant, stopped = Sufficient,
                iterations = iteration + 1\<rparr>, w1)
            else
              (case fetch_more_reviews_func of
                 None \<Rightarrow>
                   (\<lparr>returned = unique_relevant, accepted = unique_relevant,
                     stopped = No_fetch_function, iterations = iteration + 1\<rparr>, w1)
               | Some f \<Rightarrow>
                   if iteration < max_iterations rf - 1 then
                     (case fetch_more f w1 of
                        (Raises e, w2) \<Rightarrow>
                          (\<lparr>returned = unique_relevant, accepted = unique_relevant,
                            stopped = Fetch_error, iterations = iteration + 1\<rparr>, w2)
                      | (Returns new_reviews, w2) \<Rightarrow>
                          if new_reviews = [] then
                            (\<lparr>returned = unique_relevant, accepted = unique_relevant,
                              stopped = No_more_reviews, iterations = iteration + 1\<rparr>, w2)
                          else
                            refine_loop env rf place_name place_type fetch_more_reviews_func
                              (map content new_reviews) unique_relevant (iteration + 1) w2)
                   else
                     (\<lparr>returned = unique_relevant, accepted = unique_relevant,
                       stopped = No_more_iterations, iterations = iteration + 1\<rparr>,
                      w1)))
      else
        (\<lparr>returned = relevant_reviews, accepted = relevant_reviews,
          stopped = No_more_iterations, iterations = iteration\<rparr>, w))"
  by pat_completeness auto
termination
  by (relation "measure (\<lambda>(env, rf, place_name, place_type, f, cur, rel, iteration, w).
                  nat (max_iterations rf - iteration))")
     auto

definition refine_reviews_with_llm ::
  "env \<Rightarrow> refiner \<Rightarrow> string list \<Rightarrow> string \<Rightarrow> string
   \<Rightarrow> (nat \<Rightarrow> review list outcome) option \<Rightarrow> world \<Rightarrow> string list \<times> world" where
  "refine_reviews_with_llm env rf initial_reviews place_name place_type
     fetch_more_reviews_func w =
     (let (r, w1) = refine_loop env rf place_name place_type fetch_more_reviews_func
                      initial_reviews [] 0 w
      in (returned r, w1))"

section \<open>The review source of \<open>scraper/reddit_scraper.py\<close>\<close>

record scraper =
  use_llm_refinement :: bool
  review_refiner :: refiner

definition get_mock_reviews :: "string \<Rightarrow> string \<Rightarrow> int \<Rightarrow> review list" where
  "get_mock_reviews place_name the_city max_results =
     (let mock_reviews =
        [\<lparr>source = ''reddit'',
          content = ''Just visited '' @ place_name @ '' in '' @ the_city @
            '' and it was amazing! The atmosphere is perfect for studying and the coffee is top-notch. Highly recommend for anyone looking for a cozy spot.'',
          url = ''https://reddit.com/r/delhi/comments/mock1'',
          score = 45, created_utc = 1640995200\<rparr>,
         \<lparr>source = ''reddit'',
          content = ''Been to '' @ place_name @
            '' multiple times now. The staff is super friendly and the food quality is consistently good. Great place to hang out with friends in '' @
            the_city @ ''.'',
          url = ''https://reddit.com/r/delhi/comments/mock2'',
          score = 32, created_utc = 1640995200\<rparr>,
         \<lparr>source = ''reddit'',
          content = ''Honest review of '' @ place_name @
            '': The location is convenient and the prices are reasonable for '' @ the_city @
            ''. However, it can get quite crowded during peak hours.'',
          url = ''https://reddit.com/r/delhi/comments/mock3'',
          score = 28, created_utc = 1640995200\<rparr>]
      in py_slice_to mock_reviews max_results)"

text \<open>A post becomes a review when its stripped text has more than 50 characters.\<close>

definition post_review :: "post_data \<Rightarrow> review option" where
  "post_review post =
     (let text = py_strip (title post @ [CHR 0x0A, CHR 0x0A] @ selftext post)
      in if text \<noteq> [] \<and> 50 < length text then
           Some \<lparr>source = ''reddit'', content = take 1000 text, url = post_url post,
                 score = post_score post, created_utc = post_created_utc post\<rparr>
         else None)"

text \<open>
  \<open>_refine_reviews_with_llm\<close> passes \<open>_fetch_more_reviews\<close> with the keyword \<open>city\<close>
  alone, so every call of it raises \<open>TypeError\<close> for the missing \<open>place_name\<close>.
\<close>

definition fetch_more_reviews_call :: "nat \<Rightarrow> review list outcome" where
  "fetch_more_reviews_call t =
     Raises ''_fetch_more_reviews() missing 1 required positional argument: place_name''"

definition refine_scraped_reviews ::
  "env \<Rightarrow> scraper \<Rightarrow> review list \<Rightarrow> string \<Rightarrow> string \<Rightarrow> world \<Rightarrow> review list \<times> world"
  where
  "refine_scraped_reviews env sc revs place_name the_city w =
     (if \<not> use_llm_refinement sc then (revs, w)
      else
        (let review_contents = map content revs;
             (relevant_contents, w1) =
               refine_reviews_with_llm env (review_refiner sc) review_contents place_name
                 ''place'' (Some fetch_more_reviews_call) w
         in (List.map_filter (\<lambda>c. find (\<lambda>r. content r = c) revs) relevant_contents, w1)))"

definition search_place_reviews ::
  "env \<Rightarrow> scraper \<Rightarrow> string \<Rightarrow> string \<Rightarrow> int \<Rightarrow> world \<Rightarrow> review list \<times> world" where
  "search_place_reviews env sc place_name the_city max_results w =
     (let response = reddit env (length (events w)) place_name the_city max_results;
          w1 = log_event (Reddit_request place_name the_city max_results) w
      in case response of
           Transport_error e \<Rightarrow> (get_mock_reviews place_name the_city max_results, w1)
         | Http_response status_code body \<Rightarrow>
             if status_code \<noteq> 200 then
               (get_mock_reviews place_name the_city max_results, w1)
             else
               (case body of
                  Malformed_body \<Rightarrow> (get_mock_reviews place_name the_city max_results, w1)
                | _ \<Rightarrow>
                    (let revs = (case body of
                                   Listing posts \<Rightarrow> List.map_filter post_review posts
                                 | _ \<Rightarrow> [])
                     in if revs = [] then
                          (get_mock_reviews place_name the_city max_results, w1)
                        else
                          (let sorted = sort_key (\<lambda>r. - score r) revs;
                               limited = py_slice_to sorted max_results
                           in if use_llm_refinement sc \<and> limited \<noteq> [] then
                                refine_scraped_reviews env sc limited place_name the_city w1
                              else (limited, w1)))))"

fun scrape_places ::
  "env \<Rightarrow> scraper \<Rightarrow> raw_place list \<Rightarrow> string \<Rightarrow> (string \<times> review list) list \<Rightarrow> world
   \<Rightarrow> (string \<times> review list) list \<times> world" where
  "scrape_places env sc [] the_city results w = (results, w)"
| "scrape_places env sc (p # ps) the_city results w =
     (let place_name = opt_default [] (rp_name p)
      in if place_name \<noteq> [] then
           (let (revs, w1) = search_place_reviews env sc place_name the_city 5 w
            in scrape_places env sc ps the_city (dict_set place_name revs results) w1)
         else scrape_places env sc ps the_city results w)"

definition scrape_multiple_places ::
  "env \<Rightarrow> scraper \<Rightarrow> raw_place list \<Rightarrow> string \<Rightarrow> world
   \<Rightarrow> (string \<times> review list) list \<times> world" where
  "scrape_multiple_places env sc places the_city w =
     scrape_places env sc places the_city [] (log_event (Scrape_multiple places the_city) w)"


section \<open>The insert boundary of \<open>controllers/place_controller.py\<close>\<close>

text \<open>
  The collection is held in memory: a query is answered from the stored list and
  \<open>insert_many\<close> appends its documents, each with a fresh ObjectId. Without a database
  handle the attribute access \<open>mongo.db.places\<close> raises \<open>AttributeError\<close>.
\<close>

definition no_places_attribute :: string where
  "no_places_attribute =
     [CHR 0x27] @ ''NoneType'' @ [CHR 0x27] @ '' object has no attribute '' @
     [CHR 0x27] @ ''places'' @ [CHR 0x27]"

definition find_one_by_fsq_id :: "place list \<Rightarrow> string \<Rightarrow> bool" where
  "find_one_by_fsq_id stored fid = list_ex (\<lambda>p. fsq_id (original p) = Some fid) stored"

definition new_place_doc :: "env \<Rightarrow> world \<Rightarrow> string \<Rightarrow> place \<Rightarrow> place" where
  "new_place_doc env w fid place_data =
     \<lparr>doc_id = None,
      original =
        \<lparr>fsq_id = Some fid,
         name = name (original place_data),
         category = category (original place_data),
         address = address (original place_data),
         locality = locality (original place_data),
         city = city (original place_data),
         country = country (original place_data),
         photo_url = photo_url (original place_data),
         coordinates = coordinates (original place_data)\<rparr>,
      processed = processed place_data,
      reviews = reviews place_data,
      created_at = now env w,
      updated_at = now env w\<rparr>"

text \<open>
  The loop of \<open>bulk_insert_places\<close>: a place without \<open>fsq_id\<close> (absent or empty) is
  skipped, a place whose \<open>fsq_id\<close> the collection already holds is skipped, any other
  place is queued. The collection is not written until the loop has ended.
\<close>

fun build_place_docs ::
  "env \<Rightarrow> place list \<Rightarrow> place list \<Rightarrow> world \<Rightarrow> place list outcome \<times> world" where
  "build_place_docs env [] place_docs w = (Returns place_docs, w)"
| "build_place_docs env (place_data # rest) place_docs w =
     (case fsq_id (original place_data) of
        None \<Rightarrow> build_place_docs env rest place_docs w
      | Some fid \<Rightarrow>
          if fid = [] then build_place_docs env rest place_docs w
          else
            (case mongo_db w of
               None \<Rightarrow> (Raises no_places_attribute, w)
             | Some stored \<Rightarrow>
                 (let w1 = log_event (Db_find_one fid) w
                  in if find_one_by_fsq_id stored fid then
                       build_place_docs env rest place_docs w1
                     else
                       build_place_docs env rest
                         (place_docs @ [new_place_doc env w1 fid place_data]) w1)))"

definition assign_ids :: "env \<Rightarrow> nat \<Rightarrow> place list \<Rightarrow> place list" where
  "assign_ids env t docs =
     map (\<lambda>(i, d). d\<lparr>doc_id := Some (ObjectId (fresh_oid env t i))\<rparr>)
       (zip [0 ..< length docs] docs)"

definition insert_many :: "env \<Rightarrow> place list \<Rightarrow> world \<Rightarrow> doc_id list outcome \<times> world" where
  "insert_many env docs w =
     (case mongo_db w of
        None \<Rightarrow> (Raises no_places_attribute, w)
      | Some stored \<Rightarrow>
          (let inserted = assign_ids env (length (events w)) docs
           in (Returns (List.map_filter doc_id inserted),
               log_event (Db_insert_many docs) (w\<lparr>mongo_db := Some (stored @ inserted)\<rparr>))))"

fun str_id :: "doc_id \<Rightarrow> doc_id" where
  "str_id (ObjectId s) = Id_str s"
| "str_id (Id_str s) = Id_str s"

definition bulk_insert_places ::
  "env \<Rightarrow> place list \<Rightarrow> world \<Rightarrow> doc_id list outcome \<times> world" where
  "bulk_insert_places env places_data w =
     (case build_place_docs env places_data [] (log_event (Bulk_insert places_data) w) of
        (Raises e, w1) \<Rightarrow> (Raises e, w1)
      | (Returns place_docs, w1) \<Rightarrow>
          if place_docs \<noteq> [] then
            (case insert_many env place_docs w1 of
               (Raises e, w2) \<Rightarrow> (Raises e, w2)
             | (Returns inserted_ids, w2) \<Rightarrow> (Returns (map str_id inserted_ids), w2))
          else (Returns [], w1))"

section \<open>The cache-first search of \<open>services/fallback_service.py\<close>\<close>

text \<open>
  The filter of \<open>_search_existing_places\<close>: the city is equal, the category pattern,
  passed to the store unescaped as a regular expression with option \<open>i\<close>, matches the
  stored category, and, when tags are asked for, one of them is among the stored tags.
  \<open>category_matches\<close> is the test that the store compiled from the pattern.
\<close>

definition matches_query ::
  "string \<Rightarrow> (string \<Rightarrow> bool) \<Rightarrow> string list \<Rightarrow> place \<Rightarrow> bool" where
  "matches_query the_city category_matches tags p =
     (city (original p) = Some the_city \<and>
      (case category (original p) of
         None \<Rightarrow> False
       | Some c \<Rightarrow> category_matches c) \<and>
      (tags = [] \<or>
       (case processed p of
          None \<Rightarrow> False
        | Some pr \<Rightarrow> list_ex (\<lambda>t. t \<in> set tags) (p_vibe_tags pr))))"

definition stringify_id :: "place \<Rightarrow> place" where
  "stringify_id p =
     (case doc_id p of None \<Rightarrow> p | Some i \<Rightarrow> p\<lparr>doc_id := Some (str_id i)\<rparr>)"

text \<open>
  Without a database handle the function returns the empty list before it builds the
  query. With one, an invalid pattern makes the query raise.
\<close>

definition search_existing_places ::
  "env \<Rightarrow> string \<Rightarrow> string \<Rightarrow> string list \<Rightarrow> world \<Rightarrow> place list outcome \<times> world" where
  "search_existing_places env the_city the_category tags w =
     (case mongo_db w of
        None \<Rightarrow> (Returns [], w)
      | Some stored \<Rightarrow>
          (case regex_search env the_category of
             Raises e \<Rightarrow> (Raises e, log_event (Db_find the_city the_category tags) w)
           | Returns category_matches \<Rightarrow>
               (Returns (map stringify_id
                           (filter (matches_query the_city category_matches tags) stored)),
                log_event (Db_find the_city the_category tags) w)))"



definition category_mapping :: "(string \<times> string) list" where
  "category_mapping =
     [(''cafe'', ''cafe coffee''), (''restaurant'', ''restaurant food''),
      (''park'', ''park''), (''bar'', ''bar pub''), (''museum'', ''museum''),
      (''shopping'', ''shopping mall''), (''gym'', ''gym fitness''),
      (''library'', ''library''), (''theater'', ''theater cinema'')]"

definition map_category_to_query :: "(string \<Rightarrow> string) \<Rightarrow> string \<Rightarrow> string" where
  "map_category_to_query lower the_category =
     opt_default the_category (map_of category_mapping (lower the_category))"

definition fetch_tomtom_places ::
  "env \<Rightarrow> string \<Rightarrow> string \<Rightarrow> int \<Rightarrow> world \<Rightarrow> raw_place list \<times> world" where
  "fetch_tomtom_places env the_city the_category limit w =
     (let search_query = map_category_to_query (str_lower env) the_category;
          answer = tomtom env (length (events w)) search_query the_city limit;
          w1 = log_event (Tomtom_request search_query the_city limit) w
      in case answer of
           Raises e \<Rightarrow> ([], w1)
         | Returns None \<Rightarrow> ([], w1)
         | Returns (Some found) \<Rightarrow> (found, w1))"

definition dict_get :: "('k \<times> 'v) list \<Rightarrow> 'k \<Rightarrow> 'v option" where
  "dict_get d k = map_of d k"

definition transformed_place ::
  "env \<Rightarrow> world \<Rightarrow> (string \<times> review list) list \<Rightarrow> (string \<times> enrichment) list
   \<Rightarrow> raw_place \<Rightarrow> place" where
  "transformed_place env w reddit_reviews processed_data p =
     (let place_name = opt_default [] (rp_name p);
          revs = opt_default [] (dict_get reddit_reviews place_name);
          llm_data = dict_get processed_data place_name
      in \<lparr>doc_id = None,
          original =
            \<lparr>fsq_id = Some (opt_default [] (rp_fsq_id p)),
             name = Some place_name,
             category = Some (opt_default [] (rp_category p)),
             address = Some (opt_default [] (rp_address p)),
             locality = Some (opt_default [] (rp_locality p)),
             city = Some (opt_default [] (rp_city p)),
             country = Some (opt_default [] (rp_country p)),
             photo_url = Some (opt_default [] (rp_photo_url p)),
             coordinates = rp_coordinates p\<rparr>,
          processed =
            Some \<lparr>p_vibe_tags = (case llm_data of None \<Rightarrow> [] | Some d \<Rightarrow> vibe_tags d),
                  p_emojis = (case llm_data of None \<Rightarrow> [] | Some d \<Rightarrow> emojis d),
                  p_summary = (case llm_data of None \<Rightarrow> [] | Some d \<Rightarrow> summary d),
                  p_citations = []\<rparr>,
          reviews = revs,
          created_at = now env w,
          updated_at = now env w\<rparr>)"

definition transform_and_store_places_with_llm ::
  "env \<Rightarrow> raw_place list \<Rightarrow> (string \<times> review list) list \<Rightarrow> (string \<times> enrichment) list
   \<Rightarrow> world \<Rightarrow> place list outcome \<times> world" where
  "transform_and_store_places_with_llm env tomtom_places reddit_reviews processed_data w =
     (let places_to_insert =
            map (transformed_place env w reddit_reviews processed_data) tomtom_places
      in if places_to_insert \<noteq> [] then
           (case bulk_insert_places env places_to_insert w of
              (Raises e, w1) \<Rightarrow> (Raises e, w1)
            | (Returns inserted_ids, w1) \<Rightarrow> (Returns places_to_insert, w1))
         else (Returns [], w))"

record search_result =
  success :: bool
  result_source :: "string option"
  places :: "place list"
  count :: nat
  fallback_used :: "bool option"
  error :: "string option"
  tomtom_fetched :: "nat option"
  reddit_reviews_scraped :: "nat option"
  tripadvisor_reviews_scraped :: "nat option"

text \<open>The scraper as \<open>FallbackService.__init__\<close> builds it: refinement off.\<close>

definition reddit_scraper :: scraper where
  "reddit_scraper =
     \<lparr>use_llm_refinement = False,
      review_refiner = \<lparr>max_iterations = 2, min_relevant_reviews = 3\<rparr>\<rparr>"

definition error_result :: "string \<Rightarrow> search_result" where
  "error_result e =
     \<lparr>success = False, result_source = None, places = [], count = 0,
      fallback_used = None, error = Some e, tomtom_fetched = None,
      reddit_reviews_scraped = None, tripadvisor_reviews_scraped = None\<rparr>"

text \<open>
  \<open>search_places_with_fallback\<close>: whatever is raised inside the body ends in the error
  answer of the handler.
\<close>

definition search_places_with_fallback ::
  "env \<Rightarrow> string \<Rightarrow> string \<Rightarrow> string list \<Rightarrow> int \<Rightarrow> world \<Rightarrow> search_result \<times> world"
  where
  "search_places_with_fallback env the_city the_category tags min_results w =
     (case search_existing_places env the_city the_category tags w of
        (Raises e, w1) \<Rightarrow> (error_result e, w1)
      | (Returns existing_places, w1) \<Rightarrow>
          if min_results \<le> int (length existing_places) then
            (\<lparr>success = True, result_source = Some ''database'',
              places = existing_places, count = length existing_places,
              fallback_used = Some False, error = None, tomtom_fetched = None,
              reddit_reviews_scraped = None, tripadvisor_reviews_scraped = None\<rparr>, w1)
          else
            (let (tomtom_places, w2) =
                   fetch_tomtom_places env the_city the_category
                     (min_results - int (length existing_places)) w1
             in if tomtom_places = [] then
                  (\<lparr>success = True, result_source = Some ''database_only'',
                    places = existing_places, count = length existing_places,
                    fallback_used = Some False, error = None, tomtom_fetched = None,
                    reddit_reviews_scraped = None,
                    tripadvisor_reviews_scraped = None\<rparr>, w2)
                else
                  (let (reddit_reviews, w3) =
                         scrape_multiple_places env reddit_scraper tomtom_places the_city w2;
                       (processed_data, w4) =
                         process_multiple_places env reddit_reviews the_city w3
                   in case transform_and_store_places_with_llm env tomtom_places
                             reddit_reviews processed_data w4 of
                        (Raises e, w5) \<Rightarrow> (error_result e, w5)
                      | (Returns places_with_reviews, w5) \<Rightarrow>
                          (let all_places = existing_places @ places_with_reviews
                           in (\<lparr>success = True,
                                result_source = Some ''database_and_tomtom'',
                                places = all_places, count = length all_places,
                                fallback_used = Some True, error = None,
                                tomtom_fetched = Some (length tomtom_places),
                                reddit_reviews_scraped = Some (length reddit_reviews),
                                tripadvisor_reviews_scraped = Some 0\<rparr>, w5)))))"

section \<open>The intent classifier of \<open>RAG/intent_classifier.py\<close>\<close>

text \<open>\<open>s.split()\<close>: the maximal runs of characters that are not white space.\<close>

fun split_words :: "string \<Rightarrow> string \<Rightarrow> string list" where
  "split_words word [] = (if word = [] then [] else [word])"
| "split_words word (c # s) =
     (if is_space c then (if word = [] then [] else [word]) @ split_words [] s
      else split_words (word @ [c]) s)"

definition py_split :: "string \<Rightarrow> string list" where
  "py_split s = split_words [] s"

definition is_upper :: "char \<Rightarrow> bool" where
  "is_upper c = (let n = (of_char c :: nat) in 65 \<le> n \<and> n \<le> 90)"

definition is_lower :: "char \<Rightarrow> bool" where
  "is_lower c = (let n = (of_char c :: nat) in 97 \<le> n \<and> n \<le> 122)"

text \<open>\<open>s.title()\<close>: a letter after a letter is lowered, any other letter is raised.\<close>

fun title_from :: "bool \<Rightarrow> string \<Rightarrow> string" where
  "title_from previous_is_cased [] = []"
| "title_from previous_is_cased (c # s) =
     (if is_lower c then
        (if previous_is_cased then c else upper_char c) # title_from True s
      else if is_upper c then
        (if previous_is_cased then lower_char c else c) # title_from True s
      else c # title_from False s)"

definition py_title :: "string \<Rightarrow> string" where
  "py_title s = title_from False s"

text \<open>
  The text that \<open>generate_json\<close> hands to the decoder: the span from the first opening
  brace to the last closing brace when there is one, the whole answer otherwise.
\<close>

definition json_span :: "string \<Rightarrow> string" where
  "json_span response_text =
     (let start_idx = py_find (CHR ''{'') response_text;
          end_idx = py_rfind (CHR ''}'') response_text + 1
      in if start_idx \<noteq> - 1 \<and> start_idx < end_idx
         then py_slice response_text start_idx end_idx
         else response_text)"

definition generate_json ::
  "env \<Rightarrow> prompt \<Rightarrow> world \<Rightarrow> intent_dict option outcome \<times> world" where
  "generate_json env p w =
     (let (response, w1) = generate_content env p (1 / 10) w
      in case response of
           Raises e \<Rightarrow> (Raises e, w1)
         | Returns response_text \<Rightarrow>
             (case loads_intent env (json_span response_text) of
                Decode_error \<Rightarrow> (Raises ''Invalid JSON response from OpenRouter'', w1)
              | Not_object \<Rightarrow> (Returns None, w1)
              | Object d \<Rightarrow> (Returns (Some d), w1)))"

definition generate_simple_response :: "(string \<Rightarrow> string) \<Rightarrow> string \<Rightarrow> string" where
  "generate_simple_response lower query =
     (let query_lower = lower query
      in if any_in [''hello'', ''hi'', ''hey''] query_lower then
           ''Hello! How can I help you find places today?''
         else if any_in [''how are you''] query_lower then
           ''I'm doing great! Ready to help you discover amazing places. What are you looking for?''
         else if any_in [''what can you do'', ''help''] query_lower then
           ''I can help you search for places and get details about specific locations! Try asking me to find coffee shops in Delhi or tell me about a specific place.''
         else if any_in [''thanks'', ''thank you''] query_lower then
           ''You're welcome! Let me know if you need help finding more places.''
         else
           ''I'm here to help you discover places! You can ask me to search for places or get details about specific locations.'')"

text \<open>
  The scan of \<open>_extract_place_name\<close> reads \<open>word[0]\<close> of every word before it looks at
  the position; on an empty word that read raises \<open>IndexError\<close>.
\<close>

fun first_capitalised :: "nat \<Rightarrow> string list \<Rightarrow> string option outcome" where
  "first_capitalised i [] = Returns None"
| "first_capitalised i (word # rest) =
     (case word of
        [] \<Rightarrow> Raises ''string index out of range''
      | c # cs \<Rightarrow>
          if is_upper c \<and> 0 < i then Returns (Some word)
          else first_capitalised (Suc i) rest)"

definition extract_place_name :: "string \<Rightarrow> string option outcome" where
  "extract_place_name query =
     (let words = py_split query
      in if 3 \<le> length words then first_capitalised 0 words else Returns None)"

definition cities :: "string list" where
  "cities = [''delhi'', ''mumbai'', ''bangalore'', ''chennai'', ''kolkata'', ''hyderabad'',
             ''pune'', ''ahmedabad'']"

definition extract_city :: "(string \<Rightarrow> string) \<Rightarrow> string \<Rightarrow> string option" where
  "extract_city lower query =
     map_option py_title (find (\<lambda>c. py_in c (lower query)) cities)"

definition categories :: "(string \<times> string list) list" where
  "categories =
     [(''coffee'', [''coffee'', ''cafe'', ''starbucks'']),
      (''restaurant'', [''restaurant'', ''food'', ''dining'', ''eat'']),
      (''park'', [''park'', ''garden'', ''outdoor'']),
      (''bar'', [''bar'', ''pub'', ''nightlife'']),
      (''shopping'', [''mall'', ''shop'', ''store'', ''shopping''])]"

definition extract_category :: "(string \<Rightarrow> string) \<Rightarrow> string \<Rightarrow> string option" where
  "extract_category lower query =
     map_option fst (find (\<lambda>(cat, keywords). any_in keywords (lower query)) categories)"

definition simple_keywords :: "string list" where
  "simple_keywords = [''hello'', ''hi'', ''hey'', ''how are you'', ''what can you do'',
                      ''help'', ''thanks'', ''thank you'']"

definition detail_keywords :: "string list" where
  "detail_keywords = [''tell me about'', ''what is'', ''what's at'', ''info about'',
                      ''details of'', ''about'']"

definition fallback_classification ::
  "(string \<Rightarrow> string) \<Rightarrow> string \<Rightarrow> intent_dict outcome" where
  "fallback_classification lower user_query =
     (let query_lower = lower user_query
      in if any_in simple_keywords query_lower then
           Returns
             \<lparr>intent = Some ''simple_response'', confidence = Some (8 / 10),
              extracted =
                Some \<lparr>x_place_name = None, x_city = None, x_category = None,
                      x_vibe_tags = [], x_search_terms = [],
                      x_response_text = Some (generate_simple_response lower user_query)\<rparr>\<rparr>
         else if any_in detail_keywords query_lower then
           (case extract_place_name user_query of
              Raises e \<Rightarrow> Raises e
            | Returns place_name \<Rightarrow>
                Returns
                  \<lparr>intent = Some ''place_detail'', confidence = Some (7 / 10),
                   extracted =
                     Some \<lparr>x_place_name = place_name, x_city = None, x_category = None,
                           x_vibe_tags = [], x_search_terms = [],
                           x_response_text = None\<rparr>\<rparr>)
         else
           Returns
             \<lparr>intent = Some ''place_search'', confidence = Some (6 / 10),
              extracted =
                Some \<lparr>x_place_name = None, x_city = extract_city lower user_query,
                      x_category = extract_category lower user_query,
                      x_vibe_tags = [], x_search_terms = py_split user_query,
                      x_response_text = None\<rparr>\<rparr>)"

text \<open>
  \<open>classify_intent\<close>: a dictionary decoded from the model's answer is returned as it is;
  a decoded value that is no dictionary raises at \<open>result.get\<close>, which the inner handler
  turns into the keyword classification; a failed call does so in the outer handler.
\<close>

definition classify_intent ::
  "env \<Rightarrow> string \<Rightarrow> world \<Rightarrow> intent_dict outcome \<times> world" where
  "classify_intent env user_query w =
     (let (response, w1) = generate_json env (Intent_prompt user_query) w
      in case response of
           Returns (Some result) \<Rightarrow> (Returns result, w1)
         | Returns None \<Rightarrow> (fallback_classification (str_lower env) user_query, w1)
         | Raises e \<Rightarrow> (fallback_classification (str_lower env) user_query, w1))"


section \<open>Concrete environments\<close>

text \<open>
  A regular-expression reading for patterns of plain text and groups: parentheses group
  and every other character stands for itself, so a pattern with balanced parentheses
  matches where the pattern without them occurs, case ignored, and a pattern with
  unbalanced parentheses is invalid. This is the store's reading of every pattern whose
  only metacharacters are parentheses.
\<close>

fun balanced_from :: "nat \<Rightarrow> string \<Rightarrow> bool" where
  "balanced_from depth [] = (depth = 0)"
| "balanced_from depth (c # s) =
     (if c = CHR ''('' then balanced_from (Suc depth) s
      else if c = CHR '')'' then
        (case depth of 0 \<Rightarrow> False | Suc d \<Rightarrow> balanced_from d s)
      else balanced_from depth s)"

definition grouping_regex :: "string \<Rightarrow> (string \<Rightarrow> bool) outcome" where
  "grouping_regex pattern =
     (if balanced_from 0 pattern then
        Returns (\<lambda>text.
          py_in (py_lower (filter (\<lambda>c. c \<noteq> CHR ''('' \<and> c \<noteq> CHR '')'') pattern))
            (py_lower text))
      else Raises ''Regular expression is invalid'')"

text \<open>
  An environment in which every collaborator but the store is out of reach, and a world
  with an empty collection and an empty log. The closed theorems below override single
  fields.
\<close>

definition offline_env :: env where
  "offline_env =
     \<lparr>str_lower = py_lower,
      str_upper = py_upper,
      regex_search = grouping_regex,
      llm = (\<lambda>t p temperature. Raises ''OpenRouter API error: 503''),
      loads_enrichment = (\<lambda>s. Decode_error),
      loads_intent = (\<lambda>s. Decode_error),
      reddit = (\<lambda>t place_name the_city max_results. Transport_error ''unreachable''),
      tomtom = (\<lambda>t query location limit. Raises ''unreachable''),
      set_order = remdups,
      fresh_oid = (\<lambda>t i. ''oid''),
      clock = (\<lambda>t. t)\<rparr>"

definition empty_world :: world where
  "empty_world = \<lparr>mongo_db = Some [], events = []\<rparr>"

definition a_review :: "string \<Rightarrow> review" where
  "a_review text =
     \<lparr>source = ''reddit'', content = text, url = [], score = 0, created_utc = 0\<rparr>"

definition a_place :: "string \<Rightarrow> string \<Rightarrow> string \<Rightarrow> string \<Rightarrow> place" where
  "a_place fid place_name the_category the_city =
     \<lparr>doc_id = None,
      original =
        \<lparr>fsq_id = Some fid, name = Some place_name, category = Some the_category,
         address = None, locality = None, city = Some the_city, country = None,
         photo_url = None, coordinates = None\<rparr>,
      processed = None, reviews = [], created_at = 0, updated_at = 0\<rparr>"

section \<open>The rule-based enrichment\<close>

lemma valid_remdups: "valid_set_order remdups"
  by (simp add: valid_set_order_def)

lemma valid_rev_remdups: "valid_set_order (\<lambda>xs. rev (remdups xs))"
  by (simp add: valid_set_order_def)

lemma take5_set_order:
  assumes "valid_set_order ord"
  shows "distinct (take 5 (ord xs))" "length (take 5 (ord xs)) = min 5 (card (set xs))"
    "set (take 5 (ord xs)) \<subseteq> set xs"
    "card (set xs) \<le> 5 \<Longrightarrow> take 5 (ord xs) = ord xs"
proof -
  from assms have d: "distinct (ord xs)" and s: "set (ord xs) = set xs"
    by (simp_all add: valid_set_order_def)
  have l: "length (ord xs) = card (set xs)" using d s distinct_card by fastforce
  show "distinct (take 5 (ord xs))" using d by simp
  show "length (take 5 (ord xs)) = min 5 (card (set xs))" using l by simp
  show "set (take 5 (ord xs)) \<subseteq> set xs" using s set_take_subset by fastforce
  show "take 5 (ord xs) = ord xs" if "card (set xs) \<le> 5"
    using that l by simp
qed

lemma default_vibe_tags:
  "vibe_tags (get_default_processing ord lower n c) =
   take 5 (ord (collected_tags lower n c))"
  by (simp add: get_default_processing_def collected_tags_def Let_def)

lemma default_emojis:
  "emojis (get_default_processing ord lower n c) = category_emojis (lower c)"
  by (simp add: get_default_processing_def Let_def py_slice_to_def category_emojis_def)

lemma default_summary_eq:
  "summary (get_default_processing ord lower n c) = default_summary n c"
  by (simp add: get_default_processing_def Let_def)

lemma collected_tags_nonempty: "collected_tags lower n c \<noteq> []"
  by (simp add: collected_tags_def category_tags_def)

lemma coffee_bar_tags:
  "collected_tags py_lower ''Coffee Bar'' ''cafe'' =
     [''cozy'', ''caffeinated'', ''social'', ''nightlife'', ''cozy'', ''caffeinated'',
      ''social'']"
  by code_simp

lemma coffee_bar_card: "card (set (collected_tags py_lower ''Coffee Bar'' ''cafe'')) \<le> 5"
proof -
  have "set (collected_tags py_lower ''Coffee Bar'' ''cafe'') =
          {''cozy'', ''caffeinated'', ''social'', ''nightlife''}"
    unfolding coffee_bar_tags by auto
  then show ?thesis by (simp add: card_insert_if)
qed

text \<open>
  C7. For every place name and category, under every case mapping and every iteration
  order a Python set may have, the rule-based enrichment is fully populated. The summary
  is the sentence pattern filled with category and name, and is not empty. The tags are
  drawn from the union of all table matches (four keyword tests on the lower-cased name,
  one branch on the lower-cased category): they are free of duplicates, they are not
  empty, their number is the number of distinct matches cut at five, and they are all the
  matches when those are at most five. The emojis are the two of the category table, the
  generic pair when the category is none of cafe, restaurant, bar.
\<close>

theorem default_processing_shape:
  assumes "valid_set_order ord"
  shows "let name_lower = lower n;
             category_lower = lower c;
             matches =
               (if any_in [''coffee'', ''cafe'', ''brew''] name_lower
                then {''cozy'', ''caffeinated''} else {}) \<union>
               (if any_in [''restaurant'', ''dining'', ''bistro''] name_lower
                then {''dining'', ''culinary''} else {}) \<union>
               (if any_in [''bar'', ''pub'', ''tavern''] name_lower
                then {''social'', ''nightlife''} else {}) \<union>
               (if any_in [''park'', ''garden''] name_lower
                then {''outdoor'', ''nature''} else {}) \<union>
               (if category_lower = ''cafe'' then {''cozy'', ''caffeinated'', ''social''}
                else if category_lower = ''restaurant''
                  then {''dining'', ''culinary'', ''social'', ''aesthetic''}
                else if category_lower = ''bar'' then {''nightlife'', ''social'', ''vibrant''}
                else {''local'', ''accessible''});
             e = get_default_processing ord lower n c
         in summary e =
              ''A '' @ c @ '' in the area. '' @ n @
              '' offers a local experience with mixed reviews from visitors.'' \<and>
            summary e \<noteq> [] \<and>
            vibe_tags e \<noteq> [] \<and>
            distinct (vibe_tags e) \<and>
            length (vibe_tags e) = min 5 (card matches) \<and>
            set (vibe_tags e) \<subseteq> matches \<and>
            (card matches \<le> 5 \<longrightarrow> set (vibe_tags e) = matches) \<and>
            length (emojis e) = 2 \<and>
            emojis e =
              (if category_lower = ''cafe'' then [emoji_coffee, emoji_chair]
               else if category_lower = ''restaurant'' then [emoji_plate, emoji_cook]
               else if category_lower = ''bar'' then [emoji_beer, emoji_party]
               else [emoji_pin, emoji_store])"
proof -
  define M where "M =
               (if any_in [''coffee'', ''cafe'', ''brew''] (lower n)
                then {''cozy'', ''caffeinated''} else {}) \<union>
               (if any_in [''restaurant'', ''dining'', ''bistro''] (lower n)
                then {''dining'', ''culinary''} else {}) \<union>
               (if any_in [''bar'', ''pub'', ''tavern''] (lower n)
                then {''social'', ''nightlife''} else {}) \<union>
               (if any_in [''park'', ''garden''] (lower n)
                then {''outdoor'', ''nature''} else {}) \<union>
               (if lower c = ''cafe'' then {''cozy'', ''caffeinated'', ''social''}
                else if lower c = ''restaurant''
                  then {''dining'', ''culinary'', ''social'', ''aesthetic''}
                else if lower c = ''bar'' then {''nightlife'', ''social'', ''vibrant''}
                else {''local'', ''accessible''})"
  let ?e = "get_default_processing ord lower n c"
  let ?xs = "collected_tags lower n c"
  have sM: "set ?xs = M"
    unfolding M_def collected_tags_def name_tags_def category_tags_def by auto
  have v: "vibe_tags ?e = take 5 (ord ?xs)" by (rule default_vibe_tags)
  have pos: "0 < card M"
    using collected_tags_nonempty[of lower n c] sM card_gt_0_iff[of "set ?xs"] by auto
  have 1: "summary ?e =
              ''A '' @ c @ '' in the area. '' @ n @
              '' offers a local experience with mixed reviews from visitors.''"
    by (simp add: default_summary_eq default_summary_def)
  have 2: "summary ?e \<noteq> []" unfolding 1 by simp
  have 4: "distinct (vibe_tags ?e)" unfolding v by (rule take5_set_order(1)[OF assms])
  have 5: "length (vibe_tags ?e) = min 5 (card M)"
    unfolding v using take5_set_order(2)[OF assms, of ?xs] sM by simp
  have 3: "vibe_tags ?e \<noteq> []" using 5 pos by auto
  have 6: "set (vibe_tags ?e) \<subseteq> M"
    unfolding v using take5_set_order(3)[OF assms, of ?xs] sM by simp
  have 7: "set (vibe_tags ?e) = M" if "card M \<le> 5"
  proof -
    have "take 5 (ord ?xs) = ord ?xs"
      using take5_set_order(4)[OF assms, of ?xs] that sM by simp
    then show ?thesis unfolding v using assms sM by (simp add: valid_set_order_def)
  qed
  have 9: "emojis ?e =
              (if lower c = ''cafe'' then [emoji_coffee, emoji_chair]
               else if lower c = ''restaurant'' then [emoji_plate, emoji_cook]
               else if lower c = ''bar'' then [emoji_beer, emoji_party]
               else [emoji_pin, emoji_store])"
    by (simp add: default_emojis category_emojis_def)
  have 8: "length (emojis ?e) = 2" unfolding 9 by simp
  show ?thesis
    unfolding Let_def M_def[symmetric] using 1 2 3 4 5 6 7 8 9 by blast
qed

theorem default_processing_shape_witness:
  "valid_set_order remdups \<and>
   summary (get_default_processing remdups py_lower ''Coffee Bar'' ''cafe'') =
     ''A cafe in the area. Coffee Bar offers a local experience with mixed reviews from visitors.'' \<and>
   set (vibe_tags (get_default_processing remdups py_lower ''Coffee Bar'' ''cafe'')) =
     {''cozy'', ''caffeinated'', ''social'', ''nightlife''} \<and>
   length (vibe_tags (get_default_processing remdups py_lower ''Coffee Bar'' ''cafe'')) = 4 \<and>
   emojis (get_default_processing remdups py_lower ''Coffee Bar'' ''cafe'') =
     [emoji_coffee, emoji_chair]"
proof -
  have a: "any_in [''coffee'', ''cafe'', ''brew''] (py_lower ''Coffee Bar'')"
    "\<not> any_in [''restaurant'', ''dining'', ''bistro''] (py_lower ''Coffee Bar'')"
    "any_in [''bar'', ''pub'', ''tavern''] (py_lower ''Coffee Bar'')"
    "\<not> any_in [''park'', ''garden''] (py_lower ''Coffee Bar'')"
    "py_lower ''cafe'' = ''cafe''"
    by code_simp+
  have m: "(if any_in [''coffee'', ''cafe'', ''brew''] (py_lower ''Coffee Bar'')
            then {''cozy'', ''caffeinated''} else {}) \<union>
           (if any_in [''restaurant'', ''dining'', ''bistro''] (py_lower ''Coffee Bar'')
            then {''dining'', ''culinary''} else {}) \<union>
           (if any_in [''bar'', ''pub'', ''tavern''] (py_lower ''Coffee Bar'')
            then {''social'', ''nightlife''} else {}) \<union>
           (if any_in [''park'', ''garden''] (py_lower ''Coffee Bar'')
            then {''outdoor'', ''nature''} else {}) \<union>
           (if py_lower ''cafe'' = ''cafe'' then {''cozy'', ''caffeinated'', ''social''}
            else if py_lower ''cafe'' = ''restaurant''
              then {''dining'', ''culinary'', ''social'', ''aesthetic''}
            else if py_lower ''cafe'' = ''bar'' then {''nightlife'', ''social'', ''vibrant''}
            else {''local'', ''accessible''}) =
           {''cozy'', ''caffeinated'', ''social'', ''nightlife''}"
    using a by auto
  have c: "card {''cozy'', ''caffeinated'', ''social'', ''nightlife''} = 4"
    by (simp add: card_insert_if)
  note t = default_processing_shape[OF valid_remdups, of py_lower "''Coffee Bar''" "''cafe''",
      unfolded Let_def m c]
  from t have s: "summary (get_default_processing remdups py_lower ''Coffee Bar'' ''cafe'') =
     ''A cafe in the area. Coffee Bar offers a local experience with mixed reviews from visitors.''"
    by simp
  from t have v: "set (vibe_tags (get_default_processing remdups py_lower ''Coffee Bar''
                                   ''cafe'')) =
     {''cozy'', ''caffeinated'', ''social'', ''nightlife''}"
    by simp
  from t have l: "length (vibe_tags (get_default_processing remdups py_lower ''Coffee Bar''
                                      ''cafe'')) = 4"
    by simp
  from t have e: "emojis (get_default_processing remdups py_lower ''Coffee Bar'' ''cafe'') =
     [emoji_coffee, emoji_chair]"
    using a(5) by simp
  from valid_remdups s v l e show ?thesis by blast
qed

text \<open>
  C6, as amended. For every place name and category, two evaluations of the rule-based
  enrichment under the same set iteration order are equal. Under two different
  iteration orders the summaries and the emojis are still equal, and when at most five
  distinct tags were collected the two tag lists have the same elements and the same
  length; the order of the tags follows the iteration order.
\<close>

theorem default_processing_order:
  assumes "valid_set_order ord1" and "valid_set_order ord2"
  shows "summary (get_default_processing ord1 lower n c) =
           summary (get_default_processing ord2 lower n c) \<and>
         emojis (get_default_processing ord1 lower n c) =
           emojis (get_default_processing ord2 lower n c) \<and>
         (card (set (collected_tags lower n c)) \<le> 5 \<longrightarrow>
            set (vibe_tags (get_default_processing ord1 lower n c)) =
              set (vibe_tags (get_default_processing ord2 lower n c)) \<and>
            length (vibe_tags (get_default_processing ord1 lower n c)) =
              length (vibe_tags (get_default_processing ord2 lower n c))) \<and>
         (ord1 = ord2 \<longrightarrow>
            get_default_processing ord1 lower n c = get_default_processing ord2 lower n c)"
proof -
  have tags: "set (take 5 (ord1 xs)) = set (take 5 (ord2 xs)) \<and>
              length (take 5 (ord1 xs)) = length (take 5 (ord2 xs))"
    if "card (set xs) \<le> 5" for xs
  proof -
    have e1: "take 5 (ord1 xs) = ord1 xs" and e2: "take 5 (ord2 xs) = ord2 xs"
      using take5_set_order(4)[OF assms(1) that] take5_set_order(4)[OF assms(2) that]
      by simp_all
    have s: "set (ord1 xs) = set (ord2 xs)" using assms by (simp add: valid_set_order_def)
    have "length (ord1 xs) = card (set xs)" "length (ord2 xs) = card (set xs)"
      using assms distinct_card[of "ord1 xs"] distinct_card[of "ord2 xs"]
      by (simp_all add: valid_set_order_def)
    with e1 e2 s show ?thesis by simp
  qed
  show ?thesis
    using tags[of "collected_tags lower n c"]
    by (simp add: default_vibe_tags default_emojis default_summary_eq)
qed

theorem default_processing_order_witness:
  "valid_set_order remdups \<and> valid_set_order (\<lambda>xs. rev (remdups xs)) \<and>
   card (set (collected_tags py_lower ''Coffee Bar'' ''cafe'')) \<le> 5 \<and>
   summary (get_default_processing remdups py_lower ''Coffee Bar'' ''cafe'') =
     summary (get_default_processing (\<lambda>xs. rev (remdups xs)) py_lower ''Coffee Bar''
                ''cafe'') \<and>
   set (vibe_tags (get_default_processing remdups py_lower ''Coffee Bar'' ''cafe'')) =
     set (vibe_tags (get_default_processing (\<lambda>xs. rev (remdups xs)) py_lower
                       ''Coffee Bar'' ''cafe''))"
  using default_processing_order[OF valid_remdups valid_rev_remdups,
      of py_lower "''Coffee Bar''" "''cafe''"]
    coffee_bar_card valid_remdups valid_rev_remdups
  by simp

text \<open>
  C6, as stated, fails: both orders below are orders a set of strings may be iterated
  in, and the enrichments of the place Coffee Bar of category cafe differ in the order
  of their tags.
\<close>

theorem default_processing_order_counterexample:
  "valid_set_order remdups \<and> valid_set_order (\<lambda>xs. rev (remdups xs)) \<and>
   get_default_processing remdups py_lower ''Coffee Bar'' ''cafe'' \<noteq>
   get_default_processing (\<lambda>xs. rev (remdups xs)) py_lower ''Coffee Bar'' ''cafe''"
proof -
  have "vibe_tags (get_default_processing remdups py_lower ''Coffee Bar'' ''cafe'') =
          [''nightlife'', ''cozy'', ''caffeinated'', ''social'']"
    by code_simp
  moreover have
    "vibe_tags (get_default_processing (\<lambda>xs. rev (remdups xs)) py_lower ''Coffee Bar''
                  ''cafe'') =
          [''social'', ''caffeinated'', ''cozy'', ''nightlife'']"
    by code_simp
  ultimately have
    "vibe_tags (get_default_processing remdups py_lower ''Coffee Bar'' ''cafe'') \<noteq>
     vibe_tags (get_default_processing (\<lambda>xs. rev (remdups xs)) py_lower ''Coffee Bar''
                  ''cafe'')"
    by simp
  then have "get_default_processing remdups py_lower ''Coffee Bar'' ''cafe'' \<noteq>
   get_default_processing (\<lambda>xs. rev (remdups xs)) py_lower ''Coffee Bar'' ''cafe''"
    by metis
  then show ?thesis using valid_remdups valid_rev_remdups by simp
qed

section \<open>Parse failures of the enrichment answer\<close>

lemma parse_without_brace:
  "py_find (CHR ''{'') text = - 1 \<Longrightarrow>
   parse_llm_response env text =
     get_default_processing (set_order env) (str_lower env) [] []"
  by (simp add: parse_llm_response_def Let_def)

lemma parse_decode_error:
  "loads_enrichment env
     (py_slice text (py_find (CHR ''{'') text) (py_rfind (CHR ''}'') text + 1)) = Decode_error
   \<Longrightarrow> parse_llm_response env text =
         get_default_processing (set_order env) (str_lower env) [] []"
  by (simp add: parse_llm_response_def Let_def)

text \<open>
  C5. The place Blue Cafe of category cafe has one review, and the model answers with a
  text that holds no JSON object. \<open>process_place_reviews\<close> calls the model once and
  does not retry; but the enrichment it returns is the rule-based one for an empty name
  and an empty category, not the one for Blue Cafe and cafe: the summary names neither,
  and the emojis are the generic pair.
\<close>

theorem parse_failure_uses_empty_name:
  "process_place_reviews
     (offline_env\<lparr>llm := (\<lambda>t p temperature. Returns ''no json here'')\<rparr>)
     ''Blue Cafe'' ''cafe'' [a_review ''nice''] empty_world =
     (get_default_processing remdups py_lower [] [],
      log_event (Llm_request (Processing_prompt ''Blue Cafe'' ''cafe'' ''nice'') (7 / 10))
        empty_world) \<and>
   summary (get_default_processing remdups py_lower [] []) =
     ''A  in the area.  offers a local experience with mixed reviews from visitors.'' \<and>
   summary (get_default_processing remdups py_lower ''Blue Cafe'' ''cafe'') =
     ''A cafe in the area. Blue Cafe offers a local experience with mixed reviews from visitors.'' \<and>
   emojis (get_default_processing remdups py_lower [] []) = [emoji_pin, emoji_store] \<and>
   emojis (get_default_processing remdups py_lower ''Blue Cafe'' ''cafe'') =
     [emoji_coffee, emoji_chair]"
proof -
  have s: "py_strip ''nice'' \<noteq> []" by code_simp
  have f: "py_find (CHR ''{'') ''no json here'' = - 1" by code_simp
  have 1: "process_place_reviews
     (offline_env\<lparr>llm := (\<lambda>t p temperature. Returns ''no json here'')\<rparr>)
     ''Blue Cafe'' ''cafe'' [a_review ''nice''] empty_world =
     (get_default_processing remdups py_lower [] [],
      log_event (Llm_request (Processing_prompt ''Blue Cafe'' ''cafe'' ''nice'') (7 / 10))
        empty_world)"
    using s
    by (simp add: process_place_reviews_def Let_def a_review_def generate_content_def
          create_processing_prompt_def parse_without_brace[OF f] offline_env_def)
  have 2: "summary (get_default_processing remdups py_lower [] []) =
     ''A  in the area.  offers a local experience with mixed reviews from visitors.''"
    by (simp add: get_default_processing_def Let_def default_summary_def)
  have 3: "summary (get_default_processing remdups py_lower ''Blue Cafe'' ''cafe'') =
     ''A cafe in the area. Blue Cafe offers a local experience with mixed reviews from visitors.''"
    by (simp add: get_default_processing_def Let_def default_summary_def)
  have 4: "emojis (get_default_processing remdups py_lower [] []) = [emoji_pin, emoji_store]"
    by code_simp
  have 5: "emojis (get_default_processing remdups py_lower ''Blue Cafe'' ''cafe'') =
     [emoji_coffee, emoji_chair]"
    by code_simp
  show ?thesis using 1 2 3 4 5 by blast
qed

section \<open>Reviews from the review source\<close>

lemma post_review_capped: "post_review p = Some r \<Longrightarrow> length (content r) \<le> 1000"
  by (auto simp: post_review_def Let_def split: if_splits)

lemma scraped_reviews_capped:
  "r \<in> set (List.map_filter post_review posts) \<Longrightarrow> length (content r) \<le> 1000"
  by (auto simp: List.map_filter_def dest: post_review_capped)

lemma mock_reviews_nonempty: "1 \<le> m \<Longrightarrow> get_mock_reviews n c m \<noteq> []"
  by (cases "nat m") (auto simp: get_mock_reviews_def py_slice_to_def Let_def)

text \<open>
  On the live path every returned review keeps the cap: sorting, cutting to
  \<open>max_results\<close> and the optional refinement only select among the scraped reviews.
\<close>

lemma set_py_slice_to: "set (py_slice_to xs n) \<subseteq> set xs"
  by (auto simp: py_slice_to_def dest: in_set_takeD)

lemma refine_scraped_subset:
  "set (fst (refine_scraped_reviews env sc revs pn c w)) \<subseteq> set revs"
proof -
  have "x \<in> set revs" if "x \<in> set (List.map_filter (\<lambda>c. find (\<lambda>r. content r = c) revs) cs)"
    for x cs
  proof -
    from that obtain c where "find (\<lambda>r. content r = c) revs = Some x"
      by (auto simp: List.map_filter_def)
    then show ?thesis by (auto simp: find_Some_iff)
  qed
  then show ?thesis
    by (auto simp: refine_scraped_reviews_def Let_def split: prod.splits)
qed

lemma live_reviews_capped:
  assumes "reddit env (length (events w)) n c m = Http_response 200 (Listing posts)"
    and "List.map_filter post_review posts \<noteq> []"
    and "r \<in> set (fst (search_place_reviews env sc n c m w))"
  shows "length (content r) \<le> 1000"
proof -
  let ?revs = "List.map_filter post_review posts"
  let ?limited = "py_slice_to (sort_key (\<lambda>r. - score r) ?revs) m"
  let ?w1 = "log_event (Reddit_request n c m) w"
  have l: "set ?limited \<subseteq> set ?revs"
    using set_py_slice_to[of "sort_key (\<lambda>r. - score r) ?revs" m] by simp
  have "fst (search_place_reviews env sc n c m w) = ?limited \<or>
        fst (search_place_reviews env sc n c m w) =
          fst (refine_scraped_reviews env sc ?limited n c ?w1)"
    using assms(1,2) by (simp add: search_place_reviews_def Let_def)
  with refine_scraped_subset[of env sc ?limited n c ?w1] assms(3) l
  have "r \<in> set ?revs" by auto
  then show ?thesis by (rule scraped_reviews_capped)
qed

text \<open>
  C9. The request for a place whose name has 1000 characters meets a transport error.
  The three placeholder reviews that \<open>search_place_reviews\<close> returns embed the name
  uncut: their contents have 1163, 1146 and 1139 characters, all above the cap of 1000
  that the scraped reviews keep (\<open>live_reviews_capped\<close>).
\<close>

theorem mock_reviews_exceed_cap:
  "map (\<lambda>r. length (content r))
     (fst (search_place_reviews offline_env reddit_scraper (replicate 1000 (CHR ''a''))
             ''Delhi'' 5 empty_world)) = [1163, 1146, 1139]"
  by (simp add: search_place_reviews_def offline_env_def Let_def get_mock_reviews_def
        py_slice_to_def)

text \<open>
  C4, as amended. When the request is answered with status 200 and no post yields a
  review (the listing is absent, or no post has more than 50 characters of text),
  \<open>search_place_reviews\<close> returns the placeholder reviews cut to \<open>max_results\<close>,
  exactly as it does on a transport error; the result is not an error, and it is not empty
  when \<open>max_results\<close> is at least 1.
\<close>

theorem zero_results_give_placeholders:
  assumes "reddit env (length (events w)) n c m = r"
    and "r = Transport_error e \<or>
         r = Http_response 200 No_listing \<or>
         (r = Http_response 200 (Listing posts) \<and> List.map_filter post_review posts = [])"
  shows "fst (search_place_reviews env sc n c m w) = get_mock_reviews n c m \<and>
         (1 \<le> m \<longrightarrow> fst (search_place_reviews env sc n c m w) \<noteq> [])"
proof -
  have "fst (search_place_reviews env sc n c m w) = get_mock_reviews n c m"
    using assms by (auto simp: search_place_reviews_def Let_def)
  then show ?thesis using mock_reviews_nonempty by simp
qed

theorem zero_results_give_placeholders_witness:
  "reddit (offline_env\<lparr>reddit := (\<lambda>t n c m. Http_response 200 (Listing []))\<rparr>)
     (length (events empty_world)) ''Cafe X'' ''Delhi'' 5 = Http_response 200 (Listing []) \<and>
   List.map_filter post_review [] = [] \<and>
   fst (search_place_reviews
          (offline_env\<lparr>reddit := (\<lambda>t n c m. Http_response 200 (Listing []))\<rparr>)
          reddit_scraper ''Cafe X'' ''Delhi'' 5 empty_world) =
     get_mock_reviews ''Cafe X'' ''Delhi'' 5 \<and>
   fst (search_place_reviews
          (offline_env\<lparr>reddit := (\<lambda>t n c m. Http_response 200 (Listing []))\<rparr>)
          reddit_scraper ''Cafe X'' ''Delhi'' 5 empty_world) \<noteq> []"
proof -
  have r: "reddit (offline_env\<lparr>reddit := (\<lambda>t n c m. Http_response 200 (Listing []))\<rparr>)
     (length (events empty_world)) ''Cafe X'' ''Delhi'' 5 = Http_response 200 (Listing [])"
    by simp
  have m: "List.map_filter post_review [] = []" by (simp add: List.map_filter_def)
  from r m have d: "Http_response 200 (Listing []) = Transport_error [] \<or>
         Http_response 200 (Listing []) = Http_response 200 No_listing \<or>
         (Http_response 200 (Listing []) = Http_response 200 (Listing []) \<and>
          List.map_filter post_review [] = [])"
    by simp
  note z = zero_results_give_placeholders[OF r d, of reddit_scraper]
  from z have a: "fst (search_place_reviews
          (offline_env\<lparr>reddit := (\<lambda>t n c m. Http_response 200 (Listing []))\<rparr>)
          reddit_scraper ''Cafe X'' ''Delhi'' 5 empty_world) =
      get_mock_reviews ''Cafe X'' ''Delhi'' 5"
    by (rule conjunct1)
  from conjunct2[OF z] have b: "fst (search_place_reviews
          (offline_env\<lparr>reddit := (\<lambda>t n c m. Http_response 200 (Listing []))\<rparr>)
          reddit_scraper ''Cafe X'' ''Delhi'' 5 empty_world) \<noteq> []"
    by simp
  show ?thesis using r m a b by blast
qed

text \<open>
  C4, as stated, fails: the request is answered with status 200 and an empty listing, and
  \<open>search_place_reviews\<close> returns three reviews, not an empty list.
\<close>

theorem zero_results_counterexample:
  "reddit (offline_env\<lparr>reddit := (\<lambda>t n c m. Http_response 200 (Listing []))\<rparr>)
     (length (events empty_world)) ''Cafe X'' ''Delhi'' 5 = Http_response 200 (Listing []) \<and>
   length (fst (search_place_reviews
           (offline_env\<lparr>reddit := (\<lambda>t n c m. Http_response 200 (Listing []))\<rparr>)
           reddit_scraper ''Cafe X'' ''Delhi'' 5 empty_world)) = 3"
  by (simp add: search_place_reviews_def offline_env_def Let_def get_mock_reviews_def
        py_slice_to_def List.map_filter_def)

section \<open>Insert or skip\<close>

lemma build_place_docs_inv:
  assumes "mongo_db w = Some stored"
    and "build_place_docs env batch place_docs w = (res, w')"
  shows "mongo_db w' = Some stored \<and>
         (\<exists>docs new. res = Returns docs \<and> docs = place_docs @ new \<and>
            (\<forall>d \<in> set new. \<exists>fid. fsq_id (original d) = Some fid \<and> fid \<noteq> [] \<and>
                 \<not> find_one_by_fsq_id stored fid))"
  using assms
proof (induction batch arbitrary: place_docs w res w')
  case Nil
  then show ?case by auto
next
  case (Cons p batch)
  show ?case
  proof (cases "fsq_id (original p)")
    case None
    with Cons.prems have "build_place_docs env batch place_docs w = (res, w')" by simp
    from Cons.IH[OF Cons.prems(1) this] show ?thesis .
  next
    case (Some fid)
    show ?thesis
    proof (cases "fid = []")
      case True
      with Some Cons.prems have "build_place_docs env batch place_docs w = (res, w')"
        by simp
      from Cons.IH[OF Cons.prems(1) this] show ?thesis .
    next
      case False
      let ?w1 = "log_event (Db_find_one fid) w"
      have m1: "mongo_db ?w1 = Some stored" using Cons.prems(1) by (simp add: log_event_def)
      show ?thesis
      proof (cases "find_one_by_fsq_id stored fid")
        case True
        with Some False Cons.prems
        have "build_place_docs env batch place_docs ?w1 = (res, w')"
          by (simp add: Let_def)
        from Cons.IH[OF m1 this] show ?thesis .
      next
        case nf: False
        with Some False Cons.prems
        have "build_place_docs env batch
                (place_docs @ [new_place_doc env ?w1 fid p]) ?w1 = (res, w')"
          by (simp add: Let_def)
        from Cons.IH[OF m1 this] obtain docs new where
          w': "mongo_db w' = Some stored" and r: "res = Returns docs"
          and d: "docs = (place_docs @ [new_place_doc env ?w1 fid p]) @ new"
          and n: "\<forall>d \<in> set new. \<exists>fid. fsq_id (original d) = Some fid \<and> fid \<noteq> [] \<and>
                 \<not> find_one_by_fsq_id stored fid"
          by blast
        have "fsq_id (original (new_place_doc env ?w1 fid p)) = Some fid"
          by (simp add: new_place_doc_def)
        with n nf False
        have "\<forall>d \<in> set (new_place_doc env ?w1 fid p # new).
                \<exists>fid. fsq_id (original d) = Some fid \<and> fid \<noteq> [] \<and>
                  \<not> find_one_by_fsq_id stored fid"
          by auto
        with w' r d show ?thesis by auto
      qed
    qed
  qed
qed

lemma fsq_id_assign_ids:
  "map (\<lambda>d. fsq_id (original d)) (assign_ids env t docs) =
   map (\<lambda>d. fsq_id (original d)) docs"
  by (induction docs rule: rev_induct) (simp_all add: assign_ids_def)

text \<open>
  What the existence check does guarantee: the call leaves every stored place as it is
  and appends only places whose \<open>fsq_id\<close> the collection did not hold before the call.
\<close>

lemma bulk_insert_places_keeps_stored:
  assumes "mongo_db w = Some stored"
  shows "\<exists>new. mongo_db (snd (bulk_insert_places env batch w)) = Some (stored @ new) \<and>
           (\<forall>d \<in> set new. \<exists>fid. fsq_id (original d) = Some fid \<and>
                \<not> find_one_by_fsq_id stored fid)"
proof -
  let ?w0 = "log_event (Bulk_insert batch) w"
  have m0: "mongo_db ?w0 = Some stored" using assms by (simp add: log_event_def)
  obtain res w1 where b: "build_place_docs env batch [] ?w0 = (res, w1)" by fastforce
  from build_place_docs_inv[OF m0 b] obtain docs where
    m1: "mongo_db w1 = Some stored" and r: "res = Returns docs"
    and n: "\<forall>d \<in> set docs. \<exists>fid. fsq_id (original d) = Some fid \<and> fid \<noteq> [] \<and>
                 \<not> find_one_by_fsq_id stored fid"
    by auto
  show ?thesis
  proof (cases "docs = []")
    case True
    with b r m1 show ?thesis by (simp add: bulk_insert_places_def)
  next
    case False
    let ?ins = "assign_ids env (length (events w1)) docs"
    have s: "mongo_db (snd (bulk_insert_places env batch w)) = Some (stored @ ?ins)"
      using b r m1 False
      by (simp add: bulk_insert_places_def insert_many_def Let_def log_event_def)
    have "\<forall>d \<in> set ?ins. \<exists>fid. fsq_id (original d) = Some fid \<and>
            \<not> find_one_by_fsq_id stored fid"
    proof
      fix d assume "d \<in> set ?ins"
      then have "fsq_id (original d) \<in> set (map (\<lambda>d. fsq_id (original d)) ?ins)" by auto
      then have "fsq_id (original d) \<in> set (map (\<lambda>d. fsq_id (original d)) docs)"
        by (simp only: fsq_id_assign_ids)
      then obtain d' where "d' \<in> set docs" "fsq_id (original d') = fsq_id (original d)"
        by auto
      with n show "\<exists>fid. fsq_id (original d) = Some fid \<and> \<not> find_one_by_fsq_id stored fid"
        by metis
    qed
    with s show ?thesis by blast
  qed
qed

text \<open>
  C3. The collection is empty and the batch holds the same place twice, under the
  \<open>fsq_id\<close> A. Both entries pass the existence check, which reads the collection before
  anything is written, and both are inserted: after the call the collection holds two
  places with the \<open>fsq_id\<close> A.
\<close>

theorem bulk_insert_duplicate_in_batch:
  "map (\<lambda>p. fsq_id (original p))
     (opt_default [] (mongo_db (snd (bulk_insert_places offline_env
        [a_place ''A'' ''Cafe One'' ''cafe'' ''Delhi'',
         a_place ''A'' ''Cafe One'' ''cafe'' ''Delhi'']
        empty_world)))) = [Some ''A'', Some ''A'']"
  by code_simp

section \<open>The cache-first search\<close>

text \<open>
  C10. In every branch of \<open>search_places_with_fallback\<close> (the database hit, the
  database-only answer, the answer completed by the provider, the error answer) the
  returned count is the length of the returned list of places.
\<close>

theorem count_is_length_of_places:
  "count (fst (search_places_with_fallback env c cat tags min_results w)) =
   length (places (fst (search_places_with_fallback env c cat tags min_results w)))"
  by (simp add: search_places_with_fallback_def error_result_def Let_def
        split: prod.splits outcome.splits)


text \<open>An invalid category pattern ends in the error answer, with no further call.\<close>

lemma invalid_pattern_is_error:
  "search_places_with_fallback offline_env ''Delhi'' ''cafe ('' [] 0 empty_world =
     (error_result ''Regular expression is invalid'',
      log_event (Db_find ''Delhi'' ''cafe ('' []) empty_world)"
  by code_simp




section \<open>The intent classifier\<close>

lemma split_words_nonempty: "x \<in> set (split_words word s) \<Longrightarrow> x \<noteq> []"
  by (induction s arbitrary: word) (auto split: if_splits)

lemma first_capitalised_returns:
  "\<forall>x \<in> set ws. x \<noteq> [] \<Longrightarrow> \<exists>r. first_capitalised i ws = Returns r"
proof (induction ws arbitrary: i)
  case Nil
  then show ?case by simp
next
  case (Cons word ws)
  then obtain c cs where "word = c # cs" by (cases word) auto
  with Cons show ?case by auto
qed

lemma extract_place_name_returns: "\<exists>r. extract_place_name q = Returns r"
  using first_capitalised_returns[of "py_split q" 0] split_words_nonempty
  by (auto simp: extract_place_name_def py_split_def Let_def)

text \<open>The keyword classifier is total, and its answer carries tag, confidence and fields.\<close>

lemma fallback_classification_returns:
  "\<exists>r. fallback_classification lower q = Returns r \<and>
        intent r \<in> {Some ''simple_response'', Some ''place_detail'', Some ''place_search''} \<and>
        confidence r \<in> {Some (8 / 10), Some (7 / 10), Some (6 / 10)} \<and>
        (\<exists>x. extracted r = Some x)"
proof -
  obtain pn where "extract_place_name q = Returns pn"
    using extract_place_name_returns by blast
  then show ?thesis
    by (simp add: fallback_classification_def Let_def)
qed

lemma classify_intent_cases:
  "fst (classify_intent env q w) =
     (case llm env (length (events w)) (Intent_prompt q) (1 / 10) of
        Raises e \<Rightarrow> fallback_classification (str_lower env) q
      | Returns text \<Rightarrow>
          (case loads_intent env (json_span text) of
             Object d \<Rightarrow> Returns d
           | Not_object \<Rightarrow> fallback_classification (str_lower env) q
           | Decode_error \<Rightarrow> fallback_classification (str_lower env) q))"
  by (simp add: classify_intent_def generate_json_def generate_content_def
        split: outcome.splits json_result.splits)

text \<open>
  C8, as amended. For every query, \<open>classify_intent\<close> returns and never raises. When the
  model's answer decodes to a dictionary, that dictionary is returned as it is, without
  validation, so it carries an intent tag, fields and a confidence only if the model
  supplied them. In every other case (the call fails, the answer does not decode, the
  decoded value is no dictionary) the result is the keyword classification of the query,
  which is total and carries one of the three intent tags, one of the fixed confidences
  and the extracted fields.
\<close>

theorem classify_intent_total:
  "(\<exists>r. fst (classify_intent env q w) = Returns r) \<and>
   (\<forall>text d.
      llm env (length (events w)) (Intent_prompt q) (1 / 10) = Returns text \<and>
      loads_intent env (json_span text) = Object d \<longrightarrow>
      fst (classify_intent env q w) = Returns d) \<and>
   ((\<forall>text d.
      llm env (length (events w)) (Intent_prompt q) (1 / 10) = Returns text \<longrightarrow>
      loads_intent env (json_span text) \<noteq> Object d) \<longrightarrow>
    fst (classify_intent env q w) = fallback_classification (str_lower env) q) \<and>
   (\<exists>r. fallback_classification (str_lower env) q = Returns r \<and>
        intent r \<in>
          {Some ''simple_response'', Some ''place_detail'', Some ''place_search''} \<and>
        confidence r \<in> {Some (8 / 10), Some (7 / 10), Some (6 / 10)} \<and>
        (\<exists>x. extracted r = Some x))"
proof -
  note fb = fallback_classification_returns[of "str_lower env" q]
  note cs = classify_intent_cases[of env q w]
  have total: "\<exists>r. fst (classify_intent env q w) = Returns r"
    using fb unfolding cs by (auto split: outcome.splits json_result.splits)
  have pass: "fst (classify_intent env q w) = Returns d"
    if "llm env (length (events w)) (Intent_prompt q) (1 / 10) = Returns answer"
      and "loads_intent env (json_span answer) = Object d" for answer d
    using that unfolding cs by simp
  have other: "fst (classify_intent env q w) = fallback_classification (str_lower env) q"
    if "\<forall>text d. llm env (length (events w)) (Intent_prompt q) (1 / 10) = Returns text \<longrightarrow>
          loads_intent env (json_span text) \<noteq> Object d"
    using that unfolding cs by (auto split: outcome.splits json_result.splits)
  from total pass other fb show ?thesis by blast
qed

theorem classify_intent_total_witness:
  "llm (offline_env\<lparr>llm := (\<lambda>t p temperature. Returns ''{place_search}''),
                    loads_intent := (\<lambda>s. if s = ''{place_search}''
                       then Object \<lparr>intent = Some ''place_search'', confidence = None,
                                    extracted = None\<rparr>
                       else Decode_error)\<rparr>)
      (length (events empty_world)) (Intent_prompt ''parks in Pune'') (1 / 10) =
     Returns ''{place_search}'' \<and>
   fst (classify_intent
     (offline_env\<lparr>llm := (\<lambda>t p temperature. Returns ''{place_search}''),
                  loads_intent := (\<lambda>s. if s = ''{place_search}''
                     then Object \<lparr>intent = Some ''place_search'', confidence = None,
                                  extracted = None\<rparr>
                     else Decode_error)\<rparr>)
     ''parks in Pune'' empty_world) =
     Returns \<lparr>intent = Some ''place_search'', confidence = None, extracted = None\<rparr>"
proof -
  let ?env = "offline_env\<lparr>llm := (\<lambda>t p temperature. Returns ''{place_search}''),
                  loads_intent := (\<lambda>s. if s = ''{place_search}''
                     then Object \<lparr>intent = Some ''place_search'', confidence = None,
                                  extracted = None\<rparr>
                     else Decode_error)\<rparr>"
  have l: "llm ?env (length (events empty_world)) (Intent_prompt ''parks in Pune'') (1 / 10) =
      Returns ''{place_search}''"
    by simp
  have j: "json_span ''{place_search}'' = ''{place_search}''" by code_simp
  have d: "loads_intent ?env (json_span ''{place_search}'') =
      Object \<lparr>intent = Some ''place_search'', confidence = None, extracted = None\<rparr>"
    unfolding j by simp
  from classify_intent_total[of ?env "''parks in Pune''" empty_world] l d
  have "fst (classify_intent ?env ''parks in Pune'' empty_world) =
      Returns \<lparr>intent = Some ''place_search'', confidence = None, extracted = None\<rparr>"
    by blast
  with l show ?thesis by blast
qed

text \<open>
  C8, as stated, fails: the model answers with the empty JSON object, which decodes to a
  dictionary without keys, and \<open>classify_intent\<close> returns that dictionary: it has no
  intent tag, no confidence and no extracted fields.
\<close>

theorem classify_intent_untagged_counterexample:
  "fst (classify_intent
     (offline_env\<lparr>llm := (\<lambda>t p temperature. Returns ''{}''),
                  loads_intent := (\<lambda>s. if s = ''{}''
                     then Object \<lparr>intent = None, confidence = None, extracted = None\<rparr>
                     else Decode_error)\<rparr>)
     ''coffee in Pune'' empty_world) =
   Returns \<lparr>intent = None, confidence = None, extracted = None\<rparr>"
  by code_simp

section \<open>The refiner's quota\<close>

lemma length_py_slice_to_quota:
  "1 \<le> n \<Longrightarrow> n \<le> int (length xs) \<Longrightarrow>
   py_slice_to xs n = take (nat n) xs \<and> length (py_slice_to xs n) = nat n"
  by (simp add: py_slice_to_def)

lemma refine_loop_quota:
  "1 \<le> min_relevant_reviews rf \<Longrightarrow> iteration < max_iterations rf \<Longrightarrow>
   refine_loop env rf pn pt fetch cur rel iteration w = (r, w') \<Longrightarrow>
   (min_relevant_reviews rf \<le> int (length (accepted r)) \<and> stopped r = Sufficient \<and>
      returned r = take (nat (min_relevant_reviews rf)) (accepted r) \<or>
    int (length (accepted r)) < min_relevant_reviews rf \<and> returned r = accepted r \<and>
      (stopped r = No_fetch_function \<and> fetch = None \<or>
       stopped r = No_more_reviews \<and> (\<exists>f. fetch = Some f) \<or>
       stopped r = Fetch_error \<and> (\<exists>f. fetch = Some f) \<or>
       stopped r = No_more_iterations \<and> (\<exists>f. fetch = Some f) \<and>
         iterations r = max_iterations rf)) \<and>
   iterations r \<le> max_iterations rf"
proof (induction env rf pn pt fetch cur rel iteration w arbitrary: r w'
         rule: refine_loop.induct)
  case (1 env rf pn pt fetch cur rel iteration w)
  note eq = refine_loop.simps[of env rf pn pt fetch cur rel iteration w]
  obtain ir w1 where f: "filter_relevant_reviews_batched env cur pn pt w = (ir, w1)"
    by fastforce
  define u where "u = unique_preserving (rel @ ir)"
  show ?case
  proof (cases "min_relevant_reviews rf \<le> int (length u)")
    case True
    with "1.prems" f have "r = \<lparr>returned = py_slice_to u (min_relevant_reviews rf),
                accepted = u, stopped = Sufficient, iterations = iteration + 1\<rparr>"
      by (auto simp: eq u_def Let_def)
    with True "1.prems"(1,2) length_py_slice_to_quota[of "min_relevant_reviews rf" u]
    show ?thesis by simp
  next
    case short: False
    show ?thesis
    proof (cases fetch)
      case None
      with "1.prems" f short have "r = \<lparr>returned = u, accepted = u,
                     stopped = No_fetch_function, iterations = iteration + 1\<rparr>"
        by (auto simp: eq u_def Let_def)
      with short None "1.prems"(2) show ?thesis by simp
    next
      case (Some g)
      show ?thesis
      proof (cases "iteration < max_iterations rf - 1")
        case False
        with "1.prems" f short Some have "r = \<lparr>returned = u, accepted = u,
                       stopped = No_more_iterations, iterations = iteration + 1\<rparr>"
          by (auto simp: eq u_def Let_def)
        with short Some False "1.prems"(2) show ?thesis by simp
      next
        case has_iter: True
        obtain ans w2 where fm: "fetch_more g w1 = (ans, w2)" by fastforce
        show ?thesis
        proof (cases ans)
          case (Raises e)
          with "1.prems" f short Some has_iter fm have "r = \<lparr>returned = u, accepted = u,
                            stopped = Fetch_error, iterations = iteration + 1\<rparr>"
            by (auto simp: eq u_def Let_def)
          with short Some "1.prems"(2) show ?thesis by simp
        next
          case (Returns new_reviews)
          show ?thesis
          proof (cases "new_reviews = []")
            case True
            with "1.prems" f short Some has_iter fm Returns have "r = \<lparr>returned = u, accepted = u,
                              stopped = No_more_reviews, iterations = iteration + 1\<rparr>"
              by (auto simp: eq u_def Let_def)
            with short Some "1.prems"(2) show ?thesis by simp
          next
            case False
            with "1.prems" f short Some has_iter fm Returns
            have rec: "refine_loop env rf pn pt fetch (map content new_reviews) u (iteration + 1) w2 = (r, w')"
              by (auto simp: eq u_def Let_def)
            have lt: "iteration + 1 < max_iterations rf" using has_iter by simp
            from "1.IH"[OF "1.prems"(2) refl f[symmetric] u_def short Some has_iter
                  fm[symmetric] Returns False "1.prems"(1) lt rec]
            show ?thesis .
          qed
        qed
      qed
    qed
  qed
qed

text \<open>
  C2. For every initial list, place name and type, optional fetch function, and every
  refiner with \<open>max_iterations\<close> and \<open>min_relevant_reviews\<close> at least 1, the list that
  \<open>refine_reviews_with_llm\<close> returns has at most \<open>min_relevant_reviews\<close> elements.
  When the accepted reviews reach that number the loop stops as sufficient and returns
  exactly the first \<open>min_relevant_reviews\<close> of them. Otherwise it returns all accepted
  reviews, strictly fewer, and it stopped because there is no fetch function, because
  the fetch function returned nothing or raised, or because the last of the
  \<open>max_iterations\<close> passes was made.
\<close>

theorem refine_quota_law:
  assumes "1 \<le> max_iterations rf" and "1 \<le> min_relevant_reviews rf"
    and "refine_loop env rf pn pt fetch initial_reviews [] 0 w = (r, w')"
  shows "fst (refine_reviews_with_llm env rf initial_reviews pn pt fetch w) = returned r \<and>
         length (returned r) \<le> nat (min_relevant_reviews rf) \<and>
         (min_relevant_reviews rf \<le> int (length (accepted r)) \<and> stopped r = Sufficient \<and>
            returned r = take (nat (min_relevant_reviews rf)) (accepted r) \<and>
            length (returned r) = nat (min_relevant_reviews rf) \<or>
          int (length (accepted r)) < min_relevant_reviews rf \<and> returned r = accepted r \<and>
            length (returned r) < nat (min_relevant_reviews rf) \<and>
            (stopped r = No_fetch_function \<and> fetch = None \<or>
             stopped r = No_more_reviews \<and> (\<exists>f. fetch = Some f) \<or>
             stopped r = Fetch_error \<and> (\<exists>f. fetch = Some f) \<or>
             stopped r = No_more_iterations \<and> (\<exists>f. fetch = Some f) \<and>
               iterations r = max_iterations rf))"
proof -
  have lt: "0 < max_iterations rf" using assms(1) by simp
  note q = refine_loop_quota[OF assms(2) lt assms(3)]
  have a: "fst (refine_reviews_with_llm env rf initial_reviews pn pt fetch w) = returned r"
    using assms(3) by (simp add: refine_reviews_with_llm_def)
  from q assms(2) show ?thesis unfolding a by auto
qed

theorem refine_quota_law_witness:
  "1 \<le> max_iterations \<lparr>max_iterations = 2, min_relevant_reviews = 3\<rparr> \<and>
   1 \<le> min_relevant_reviews \<lparr>max_iterations = 2, min_relevant_reviews = 3\<rparr> \<and>
   accepted (fst (refine_loop
       (offline_env\<lparr>llm := (\<lambda>t p temperature.
           Returns (''YES'' @ [CHR 0x0A] @ ''yes'' @ [CHR 0x0A] @ ''NO''))\<rparr>)
       \<lparr>max_iterations = 2, min_relevant_reviews = 3\<rparr> ''Cafe X'' ''place''
       (Some (\<lambda>t. Returns [a_review ''d'', a_review ''e'', a_review ''f'']))
       [''a'', ''b'', ''c''] [] 0 empty_world)) = [''a'', ''b'', ''d'', ''e''] \<and>
   fst (refine_reviews_with_llm
       (offline_env\<lparr>llm := (\<lambda>t p temperature.
           Returns (''YES'' @ [CHR 0x0A] @ ''yes'' @ [CHR 0x0A] @ ''NO''))\<rparr>)
       \<lparr>max_iterations = 2, min_relevant_reviews = 3\<rparr> [''a'', ''b'', ''c''] ''Cafe X'' ''place''
       (Some (\<lambda>t. Returns [a_review ''d'', a_review ''e'', a_review ''f'']))
       empty_world) = [''a'', ''b'', ''d'']"
proof -
  let ?env = "offline_env\<lparr>llm := (\<lambda>t p temperature.
           Returns (''YES'' @ [CHR 0x0A] @ ''yes'' @ [CHR 0x0A] @ ''NO''))\<rparr>"
  let ?rf = "\<lparr>max_iterations = 2, min_relevant_reviews = 3\<rparr>"
  let ?fetch = "Some (\<lambda>t::nat. Returns [a_review ''d'', a_review ''e'', a_review ''f''])"
  let ?run = "refine_loop ?env ?rf ''Cafe X'' ''place'' ?fetch [''a'', ''b'', ''c''] [] 0 empty_world"
  have h1: "1 \<le> max_iterations ?rf" by simp
  have h2: "1 \<le> min_relevant_reviews ?rf" by simp
  have h3: "?run = (fst ?run, snd ?run)" by simp
  have acc: "accepted (fst ?run) = [''a'', ''b'', ''d'', ''e'']" by code_simp
  note t = refine_quota_law[OF h1 h2 h3]
  from t acc have "fst (refine_reviews_with_llm ?env ?rf [''a'', ''b'', ''c''] ''Cafe X'' ''place'' ?fetch empty_world)
      = [''a'', ''b'', ''d'']"
    by (simp add: numeral_3_eq_3)
  with h1 h2 acc show ?thesis by blast
qed

end
